theory Spec2Isabelle
  imports Main
begin

section \<open>The profiler agent's JVMTI bootstrap (common\_functions.c)\<close>

text \<open>
  The file \<^verbatim>\<open>common_functions.c\<close> holds the two entry points the Java VM calls
  (\<^verbatim>\<open>JNI_OnLoad\<close>, \<^verbatim>\<open>Agent_OnLoad\<close>) and the initialization sequence they share
  (\<^verbatim>\<open>initializeJVMTI\<close>). The code is straight-line C over four globals and the JVMTI
  function table of the host. The embedding passes the globals as a record, keeps every
  observable statement in an ordered trace, and takes the host's replies as a parameter.
\<close>

subsection \<open>Data of the JVMTI interface\<close>

type_synonym jint = int
type_synonym jvmtiError = int

definition JVMTI_ERROR_NONE :: jvmtiError where
  "JVMTI_ERROR_NONE = 0"

definition JNI_VERSION_1_2 :: jint where
  "JNI_VERSION_1_2 = 0x00010002"

text \<open>A non-null \<^verbatim>\<open>jvmtiEnv *\<close> is an address; \<^verbatim>\<open>NULL\<close> is \<open>None\<close>.\<close>

type_synonym jvmtiEnv = nat

datatype jvmti_version = JVMTI_VERSION_1_0 | JVMTI_VERSION_1_1

text \<open>The capability bits the agent names; the host may report others.\<close>

datatype capability =
    can_redefine_classes
  | can_retransform_classes
  | can_generate_garbage_collection_events
  | can_generate_native_method_bind_events
  | can_generate_monitor_events
  | can_get_current_thread_cpu_time
  | can_generate_vm_object_alloc_events
  | can_get_monitor_info
  | other_capability nat

text \<open>\<^verbatim>\<open>jvmtiCapabilities\<close> is a struct of one-bit fields: the set of the bits that are 1.\<close>

type_synonym jvmtiCapabilities = "capability set"

datatype jvmtiEventMode = JVMTI_ENABLE | JVMTI_DISABLE

text \<open>The event kinds the agent passes to \<^verbatim>\<open>SetEventNotificationMode\<close>.\<close>

datatype jvmtiEvent =
    JVMTI_EVENT_VM_INIT
  | JVMTI_EVENT_CLASS_FILE_LOAD_HOOK
  | JVMTI_EVENT_NATIVE_METHOD_BIND
  | JVMTI_EVENT_MONITOR_CONTENDED_ENTER
  | JVMTI_EVENT_MONITOR_CONTENDED_ENTERED

text \<open>
  The handlers are external functions (declared in \<^verbatim>\<open>common_functions.h\<close>); only their
  addresses are stored here.
\<close>

datatype hook =
    class_file_load_hook
  | native_method_bind_hook
  | monitor_contended_enter_hook
  | monitor_contended_entered_hook
  | vm_object_alloc
  | vm_init_hook

text \<open>
  \<^verbatim>\<open>jvmtiEventCallbacks\<close>: a struct of function pointers, a null pointer being \<open>None\<close>.
  The record has the six slots the agent assigns; every other slot of the C struct is
  written by the \<^verbatim>\<open>memset\<close> only and stays null.
\<close>

record jvmtiEventCallbacks =
  VMInit :: "hook option"
  ClassFileLoadHook :: "hook option"
  NativeMethodBind :: "hook option"
  MonitorContendedEnter :: "hook option"
  MonitorContendedEntered :: "hook option"
  VMObjectAlloc :: "hook option"

definition zeroed_callbacks :: jvmtiEventCallbacks where
  "zeroed_callbacks =
     \<lparr>VMInit = None, ClassFileLoadHook = None, NativeMethodBind = None,
      MonitorContendedEnter = None, MonitorContendedEntered = None, VMObjectAlloc = None\<rparr>"

subsection \<open>The host\<close>

text \<open>
  What the VM answers during one invocation of an entry point, as a function of the
  arguments of the call. No two calls of one invocation have the same function and the
  same arguments, so this fixes nothing about the host. \<open>GetEnv_reply\<close> is the pointer the
  VM stores through \<^verbatim>\<open>penv\<close> (null when it refuses the version); the C code ignores the
  \<^verbatim>\<open>jint\<close> that \<^verbatim>\<open>GetEnv\<close> returns.
\<close>

record host =
  GetEnv_reply :: "jvmti_version \<Rightarrow> jvmtiEnv option"
  GetCapabilities_reply :: "jvmtiError \<times> jvmtiCapabilities"
  AddCapabilities_reply :: "jvmtiCapabilities \<Rightarrow> jvmtiError"
  SetEventCallbacks_reply :: "jvmtiEventCallbacks \<Rightarrow> jvmtiError"
  SetEventNotificationMode_reply :: "jvmtiEventMode \<Rightarrow> jvmtiEvent \<Rightarrow> jvmtiError"

subsection \<open>State, trace and faults\<close>

datatype stream = stdout | stderr

text \<open>
  One entry per observable statement, in program order: text written to a stream, a call
  of the host with its arguments and reply, a store into the callback table (with the
  table's contents after the store), and the call of the external option parser.
\<close>

datatype action =
    Printed stream string
  | Called_GetEnv jvmti_version "jvmtiEnv option"
  | Called_GetCapabilities jvmtiError jvmtiCapabilities
  | Called_AddCapabilities jvmtiCapabilities jvmtiError
  | Wrote_callbacks jvmtiEventCallbacks
  | Called_SetEventCallbacks jvmtiEventCallbacks jvmtiError
  | Called_SetEventNotificationMode jvmtiEventMode jvmtiEvent jvmtiError
  | Called_parse_options_and_extract_params string

datatype callbacks_ptr = Addr_jvmti_callbacks_static

text \<open>
  The globals \<^verbatim>\<open>_jvmti\<close>, \<^verbatim>\<open>_jvmti_callbacks\<close> and \<^verbatim>\<open>_jvmti_callbacks_static\<close> (an
  Isabelle name cannot start with an underscore), and the trace.
\<close>

record agent_state =
  jvmti :: "jvmtiEnv option"
  jvmti_callbacks :: "callbacks_ptr option"
  jvmti_callbacks_static :: jvmtiEventCallbacks
  trace :: "action list"

text \<open>C zero-initializes globals.\<close>

definition initial_state :: agent_state where
  "initial_state =
     \<lparr>jvmti = None, jvmti_callbacks = None, jvmti_callbacks_static = zeroed_callbacks,
      trace = []\<rparr>"

text \<open>
  A failed \<^verbatim>\<open>assert\<close> calls \<^verbatim>\<open>abort\<close> (the file is modelled as compiled without
  \<^verbatim>\<open>NDEBUG\<close>, so that the assertions it writes are statements); a call or store through
  a null pointer ends the run too. Both keep the state reached.
\<close>

datatype fault = Assertion_failed | Null_dereference

type_synonym 'a result = "(fault \<times> agent_state) + ('a \<times> agent_state)"
type_synonym 'a prog = "agent_state \<Rightarrow> 'a result"

definition return :: "'a \<Rightarrow> 'a prog" where
  "return x s = Inr (x, s)"

definition bind :: "'a prog \<Rightarrow> ('a \<Rightarrow> 'b prog) \<Rightarrow> 'b prog" where
  "bind m f s = (case m s of Inl e \<Rightarrow> Inl e | Inr (x, s') \<Rightarrow> f x s')"

definition log :: "action \<Rightarrow> agent_state \<Rightarrow> agent_state" where
  "log a s = s\<lparr>trace := trace s @ [a]\<rparr>"

definition assert :: "bool \<Rightarrow> unit prog" where
  "assert b s = (if b then Inr ((), s) else Inl (Assertion_failed, s))"

definition fprintf :: "stream \<Rightarrow> string \<Rightarrow> unit prog" where
  "fprintf f text s = Inr ((), log (Printed f text) s)"

text \<open>The state the run stopped in, and what it added to the trace of the start state.\<close>

fun final_state :: "'a result \<Rightarrow> agent_state" where
  "final_state (Inl (e, s)) = s"
| "final_state (Inr (x, s)) = s"

definition actions_of :: "agent_state \<Rightarrow> 'a result \<Rightarrow> action list" where
  "actions_of s r = drop (length (trace s)) (trace (final_state r))"

subsection \<open>C library functions\<close>

definition strlen :: "string \<Rightarrow> nat" where
  "strlen s = length s"

text \<open>\<^verbatim>\<open>strpbrk\<close>: the suffix from the first character that occurs in \<open>accept\<close>, or null.\<close>

definition strpbrk :: "string \<Rightarrow> string \<Rightarrow> string option" where
  "strpbrk s accept =
     (case dropWhile (\<lambda>c. c \<notin> set accept) s of [] \<Rightarrow> None | r # rs \<Rightarrow> Some (r # rs))"

text \<open>The conversion \<^verbatim>\<open>%d\<close>.\<close>

fun show_nat :: "nat \<Rightarrow> string" where
  "show_nat n =
     (if n < 10 then [''0123456789'' ! n]
      else show_nat (n div 10) @ [''0123456789'' ! (n mod 10)])"

definition show_int :: "int \<Rightarrow> string" where
  "show_int i = (if i < 0 then CHR ''-'' # show_nat (nat (- i)) else show_nat (nat i))"

subsection \<open>Calls through the JVMTI function table\<close>

text \<open>
  \<^verbatim>\<open>(*jvm)->GetEnv(jvm, (void**)&_jvmti, version)\<close> stores into \<^verbatim>\<open>_jvmti\<close>. Every other
  call is \<^verbatim>\<open>(*_jvmti)->F(_jvmti, ...)\<close> and reads the function table through \<^verbatim>\<open>_jvmti\<close>.
\<close>

definition GetEnv :: "host \<Rightarrow> jvmti_version \<Rightarrow> unit prog" where
  "GetEnv h v s =
     (let env = GetEnv_reply h v
      in Inr ((), log (Called_GetEnv v env) (s\<lparr>jvmti := env\<rparr>)))"

definition GetCapabilities :: "host \<Rightarrow> (jvmtiError \<times> jvmtiCapabilities) prog" where
  "GetCapabilities h s =
     (case jvmti s of
        None \<Rightarrow> Inl (Null_dereference, s)
      | Some env \<Rightarrow>
          (case GetCapabilities_reply h of
             (err, capas) \<Rightarrow> Inr ((err, capas), log (Called_GetCapabilities err capas) s)))"

definition AddCapabilities :: "host \<Rightarrow> jvmtiCapabilities \<Rightarrow> jvmtiError prog" where
  "AddCapabilities h capas s =
     (case jvmti s of
        None \<Rightarrow> Inl (Null_dereference, s)
      | Some env \<Rightarrow>
          (let err = AddCapabilities_reply h capas
           in Inr (err, log (Called_AddCapabilities capas err) s)))"

text \<open>The second argument of \<^verbatim>\<open>SetEventCallbacks\<close> is \<^verbatim>\<open>_jvmti_callbacks\<close>; the VM copies the
  table it points to.\<close>

definition SetEventCallbacks :: "host \<Rightarrow> jvmtiError prog" where
  "SetEventCallbacks h s =
     (case jvmti s of
        None \<Rightarrow> Inl (Null_dereference, s)
      | Some env \<Rightarrow>
          (case jvmti_callbacks s of
             None \<Rightarrow> Inl (Null_dereference, s)
           | Some Addr_jvmti_callbacks_static \<Rightarrow>
               (let table = jvmti_callbacks_static s;
                    res = SetEventCallbacks_reply h table
                in Inr (res, log (Called_SetEventCallbacks table res) s))))"

definition SetEventNotificationMode ::
  "host \<Rightarrow> jvmtiEventMode \<Rightarrow> jvmtiEvent \<Rightarrow> jvmtiError prog" where
  "SetEventNotificationMode h mode ev s =
     (case jvmti s of
        None \<Rightarrow> Inl (Null_dereference, s)
      | Some env \<Rightarrow>
          (let res = SetEventNotificationMode_reply h mode ev
           in Inr (res, log (Called_SetEventNotificationMode mode ev res) s)))"

text \<open>\<^verbatim>\<open>memset(_jvmti_callbacks, 0, sizeof(jvmtiEventCallbacks))\<close> and
  \<^verbatim>\<open>_jvmti_callbacks->Slot = hook\<close>: stores through the pointer \<^verbatim>\<open>_jvmti_callbacks\<close>.\<close>

definition store_callbacks :: "(jvmtiEventCallbacks \<Rightarrow> jvmtiEventCallbacks) \<Rightarrow> unit prog" where
  "store_callbacks f s =
     (case jvmti_callbacks s of
        None \<Rightarrow> Inl (Null_dereference, s)
      | Some Addr_jvmti_callbacks_static \<Rightarrow>
          (let table = f (jvmti_callbacks_static s)
           in Inr ((), log (Wrote_callbacks table) (s\<lparr>jvmti_callbacks_static := table\<rparr>))))"

definition memset_callbacks :: "unit prog" where
  "memset_callbacks = store_callbacks (\<lambda>t. zeroed_callbacks)"

subsection \<open>The functions of common\_functions.c\<close>

definition report_usage :: "unit prog" where
  "report_usage =
     bind (fprintf stderr ''Profiler Agent: -agentpath:<PATH>/profilerinterface should be called with two parameters:\<newline>'') (\<lambda>_.
     bind (fprintf stderr ''Profiler Agent: path to Profiler agent libraries and port number, separated by comma, for example:\<newline>'') (\<lambda>_.
     fprintf stderr ''Profiler Agent: java -agentpath:/mypath/profilerinterface=/home/me/nb-profiler-server/profiler-ea-libs,5500\<newline>''))"

text \<open>
  \<open>jni_1_6\<close> says whether the JNI header defines \<^verbatim>\<open>JNI_VERSION_1_6\<close>: the two
  \<^verbatim>\<open>#ifdef\<close>s of \<^verbatim>\<open>initializeJVMTI\<close>, for the version passed to \<^verbatim>\<open>GetEnv\<close> and for
  \<^verbatim>\<open>can_retransform_classes\<close>. \<open>requested_capabilities\<close> is what lines 75 to 84 do to
  \<^verbatim>\<open>capas\<close>.
\<close>

definition requested_version :: "bool \<Rightarrow> jvmti_version" where
  "requested_version jni_1_6 = (if jni_1_6 then JVMTI_VERSION_1_1 else JVMTI_VERSION_1_0)"

definition requested_capabilities :: "bool \<Rightarrow> jvmtiCapabilities \<Rightarrow> jvmtiCapabilities" where
  "requested_capabilities jni_1_6 capas =
     (let capas = insert can_redefine_classes capas;
          capas = (if jni_1_6 then insert can_retransform_classes capas else capas);
          capas = insert can_generate_garbage_collection_events capas;
          capas = insert can_generate_native_method_bind_events capas;
          capas = insert can_generate_monitor_events capas;
          capas = insert can_get_current_thread_cpu_time capas;
          capas = insert can_generate_vm_object_alloc_events capas;
          capas = insert can_get_monitor_info capas
      in capas)"

definition initializeJVMTI :: "bool \<Rightarrow> host \<Rightarrow> unit prog" where
  "initializeJVMTI jni_1_6 h =
     bind (GetEnv h (requested_version jni_1_6)) (\<lambda>_.
     bind (GetCapabilities h) (\<lambda>(err, capas).
     bind (assert (err = JVMTI_ERROR_NONE)) (\<lambda>_.
     bind (AddCapabilities h (requested_capabilities jni_1_6 capas)) (\<lambda>err.
     bind (if err \<noteq> JVMTI_ERROR_NONE
           then fprintf stderr
                  (''Profiler Agent Error: Failed to obtain JVMTI capabilities, error code: ''
                   @ show_int err @ ''\<newline>'')
           else return ()) (\<lambda>_.
     bind (\<lambda>s. Inr ((), s\<lparr>jvmti_callbacks := Some Addr_jvmti_callbacks_static\<rparr>)) (\<lambda>_.
     bind memset_callbacks (\<lambda>_.
     bind (store_callbacks (\<lambda>t. t\<lparr>ClassFileLoadHook := Some class_file_load_hook\<rparr>)) (\<lambda>_.
     bind (store_callbacks (\<lambda>t. t\<lparr>NativeMethodBind := Some native_method_bind_hook\<rparr>)) (\<lambda>_.
     bind (store_callbacks (\<lambda>t. t\<lparr>MonitorContendedEnter := Some monitor_contended_enter_hook\<rparr>)) (\<lambda>_.
     bind (store_callbacks (\<lambda>t. t\<lparr>MonitorContendedEntered := Some monitor_contended_entered_hook\<rparr>)) (\<lambda>_.
     bind (store_callbacks (\<lambda>t. t\<lparr>VMObjectAlloc := Some vm_object_alloc\<rparr>)) (\<lambda>_.
     bind (SetEventCallbacks h) (\<lambda>res.
     bind (assert (res = JVMTI_ERROR_NONE)) (\<lambda>_.
     bind (SetEventNotificationMode h JVMTI_ENABLE JVMTI_EVENT_CLASS_FILE_LOAD_HOOK) (\<lambda>res.
     bind (assert (res = JVMTI_ERROR_NONE)) (\<lambda>_.
     bind (SetEventNotificationMode h JVMTI_ENABLE JVMTI_EVENT_NATIVE_METHOD_BIND) (\<lambda>res.
     bind (assert (res = JVMTI_ERROR_NONE)) (\<lambda>_.
     bind (SetEventNotificationMode h JVMTI_ENABLE JVMTI_EVENT_MONITOR_CONTENDED_ENTER) (\<lambda>res.
     bind (assert (res = JVMTI_ERROR_NONE)) (\<lambda>_.
     bind (SetEventNotificationMode h JVMTI_ENABLE JVMTI_EVENT_MONITOR_CONTENDED_ENTERED) (\<lambda>res.
     assert (res = JVMTI_ERROR_NONE))))))))))))))))))))))"

definition JNI_OnLoad :: "bool \<Rightarrow> host \<Rightarrow> jint prog" where
  "JNI_OnLoad jni_1_6 h =
     bind (\<lambda>s. if jvmti s = None
               then bind (fprintf stdout ''Profiler Agent: JNI OnLoad Initializing...\<newline>'') (\<lambda>_.
                    bind (initializeJVMTI jni_1_6 h) (\<lambda>_.
                    fprintf stdout ''Profiler Agent: JNI OnLoad Initialized successfully\<newline>'')) s
               else return () s) (\<lambda>_.
     return JNI_VERSION_1_2)"

text \<open>
  Modelled from the spec: \<^verbatim>\<open>parse_options_and_extract_params\<close> is defined outside this
  file (the Startup Option Parser, an external collaborator: raw string in, structured
  configuration out). The call and its argument are recorded; the parser is taken to
  return and to leave the four globals of this file alone.
\<close>

definition parse_options_and_extract_params :: "string \<Rightarrow> unit prog" where
  "parse_options_and_extract_params options s =
     Inr ((), log (Called_parse_options_and_extract_params options) s)"

text \<open>\<open>options\<close> is \<open>None\<close> for a null \<^verbatim>\<open>char *\<close>.\<close>

definition Agent_OnLoad :: "bool \<Rightarrow> host \<Rightarrow> string option \<Rightarrow> jint prog" where
  "Agent_OnLoad jni_1_6 h options =
     bind (fprintf stdout ''Profiler Agent: Initializing...\<newline>'') (\<lambda>_.
     bind (initializeJVMTI jni_1_6 h) (\<lambda>_.
     bind (case options of
             Some opts \<Rightarrow> fprintf stdout (''Profiler Agent: Options: >'' @ opts @ ''<\<newline>'')
           | None \<Rightarrow> fprintf stdout ''Profiler Agent: No options\<newline>'') (\<lambda>_.
     let finish = bind (fprintf stdout ''Profiler Agent: Initialized successfully\<newline>'') (\<lambda>_.
                  return 0)
     in case options of
          None \<Rightarrow> finish
        | Some opts \<Rightarrow>
            if strlen opts > 0 then
              if strpbrk opts '','' = None then
                bind report_usage (\<lambda>_. return (- 1))
              else
                bind (parse_options_and_extract_params opts) (\<lambda>_.
                bind (store_callbacks (\<lambda>t. t\<lparr>VMInit := Some vm_init_hook\<rparr>)) (\<lambda>_.
                bind (SetEventCallbacks h) (\<lambda>_.
                bind (SetEventNotificationMode h JVMTI_ENABLE JVMTI_EVENT_VM_INIT) (\<lambda>_.
                finish))))
            else finish)))"

subsection \<open>What a completed initialization looks like\<close>

text \<open>The table after the five stores of lines 95 to 99: the \<open>VMInit\<close> slot is still null.\<close>

definition agent_callbacks :: jvmtiEventCallbacks where
  "agent_callbacks =
     \<lparr>VMInit = None, ClassFileLoadHook = Some class_file_load_hook,
      NativeMethodBind = Some native_method_bind_hook,
      MonitorContendedEnter = Some monitor_contended_enter_hook,
      MonitorContendedEntered = Some monitor_contended_entered_hook,
      VMObjectAlloc = Some vm_object_alloc\<rparr>"

text \<open>The table after line 150.\<close>

definition armed_callbacks :: jvmtiEventCallbacks where
  "armed_callbacks = agent_callbacks\<lparr>VMInit := Some vm_init_hook\<rparr>"

definition capability_error_line :: "jvmtiError \<Rightarrow> string" where
  "capability_error_line err =
     ''Profiler Agent Error: Failed to obtain JVMTI capabilities, error code: ''
     @ show_int err @ ''\<newline>''"

definition usage_message :: "string list" where
  "usage_message =
     [''Profiler Agent: -agentpath:<PATH>/profilerinterface should be called with two parameters:\<newline>'',
      ''Profiler Agent: path to Profiler agent libraries and port number, separated by comma, for example:\<newline>'',
      ''Profiler Agent: java -agentpath:/mypath/profilerinterface=/home/me/nb-profiler-server/profiler-ea-libs,5500\<newline>'']"

text \<open>
  The host replies that \<^verbatim>\<open>initializeJVMTI\<close> needs to run to its end: a non-null
  environment from \<^verbatim>\<open>GetEnv\<close>, and \<^verbatim>\<open>JVMTI_ERROR_NONE\<close> from each call whose result is
  asserted. The reply to \<^verbatim>\<open>AddCapabilities\<close> is not among them.
\<close>

definition init_ok :: "bool \<Rightarrow> host \<Rightarrow> bool" where
  "init_ok jni_1_6 h \<longleftrightarrow>
     GetEnv_reply h (requested_version jni_1_6) \<noteq> None \<and>
     fst (GetCapabilities_reply h) = JVMTI_ERROR_NONE \<and>
     SetEventCallbacks_reply h agent_callbacks = JVMTI_ERROR_NONE \<and>
     SetEventNotificationMode_reply h JVMTI_ENABLE JVMTI_EVENT_CLASS_FILE_LOAD_HOOK = JVMTI_ERROR_NONE \<and>
     SetEventNotificationMode_reply h JVMTI_ENABLE JVMTI_EVENT_NATIVE_METHOD_BIND = JVMTI_ERROR_NONE \<and>
     SetEventNotificationMode_reply h JVMTI_ENABLE JVMTI_EVENT_MONITOR_CONTENDED_ENTER = JVMTI_ERROR_NONE \<and>
     SetEventNotificationMode_reply h JVMTI_ENABLE JVMTI_EVENT_MONITOR_CONTENDED_ENTERED = JVMTI_ERROR_NONE"

text \<open>
  Lines 92 to 101 when the registration succeeds: the \<^verbatim>\<open>memset\<close>, the five stores (each
  entry shows the table after the store) and the call that hands the table to the VM.
\<close>

definition registration_block :: "action list" where
  "registration_block =
     [Wrote_callbacks zeroed_callbacks,
      Wrote_callbacks (zeroed_callbacks\<lparr>ClassFileLoadHook := Some class_file_load_hook\<rparr>),
      Wrote_callbacks (zeroed_callbacks\<lparr>ClassFileLoadHook := Some class_file_load_hook,
         NativeMethodBind := Some native_method_bind_hook\<rparr>),
      Wrote_callbacks (zeroed_callbacks\<lparr>ClassFileLoadHook := Some class_file_load_hook,
         NativeMethodBind := Some native_method_bind_hook,
         MonitorContendedEnter := Some monitor_contended_enter_hook\<rparr>),
      Wrote_callbacks (zeroed_callbacks\<lparr>ClassFileLoadHook := Some class_file_load_hook,
         NativeMethodBind := Some native_method_bind_hook,
         MonitorContendedEnter := Some monitor_contended_enter_hook,
         MonitorContendedEntered := Some monitor_contended_entered_hook\<rparr>),
      Wrote_callbacks agent_callbacks,
      Called_SetEventCallbacks agent_callbacks JVMTI_ERROR_NONE]"

text \<open>Lines 103 to 113 when every call succeeds.\<close>

definition four_enables :: "action list" where
  "four_enables =
     [Called_SetEventNotificationMode JVMTI_ENABLE JVMTI_EVENT_CLASS_FILE_LOAD_HOOK JVMTI_ERROR_NONE,
      Called_SetEventNotificationMode JVMTI_ENABLE JVMTI_EVENT_NATIVE_METHOD_BIND JVMTI_ERROR_NONE,
      Called_SetEventNotificationMode JVMTI_ENABLE JVMTI_EVENT_MONITOR_CONTENDED_ENTER JVMTI_ERROR_NONE,
      Called_SetEventNotificationMode JVMTI_ENABLE JVMTI_EVENT_MONITOR_CONTENDED_ENTERED JVMTI_ERROR_NONE]"

text \<open>Lines 67 to 88 when \<^verbatim>\<open>GetCapabilities\<close> succeeds.\<close>

definition negotiation :: "bool \<Rightarrow> host \<Rightarrow> action list" where
  "negotiation jni_1_6 h =
     (let capas = requested_capabilities jni_1_6 (snd (GetCapabilities_reply h));
          err = AddCapabilities_reply h capas
      in [Called_GetEnv (requested_version jni_1_6) (GetEnv_reply h (requested_version jni_1_6)),
          Called_GetCapabilities JVMTI_ERROR_NONE (snd (GetCapabilities_reply h)),
          Called_AddCapabilities capas err]
         @ (if err \<noteq> JVMTI_ERROR_NONE then [Printed stderr (capability_error_line err)] else []))"

definition init_actions :: "bool \<Rightarrow> host \<Rightarrow> action list" where
  "init_actions jni_1_6 h = negotiation jni_1_6 h @ registration_block @ four_enables"

text \<open>The globals after a completed \<^verbatim>\<open>initializeJVMTI\<close>, with the trace \<open>tr\<close>.\<close>

definition initialized :: "bool \<Rightarrow> host \<Rightarrow> action list \<Rightarrow> agent_state" where
  "initialized jni_1_6 h tr =
     \<lparr>jvmti = GetEnv_reply h (requested_version jni_1_6),
      jvmti_callbacks = Some Addr_jvmti_callbacks_static,
      jvmti_callbacks_static = agent_callbacks,
      trace = tr\<rparr>"

subsection \<open>Observations on a trace\<close>

fun is_enable :: "action \<Rightarrow> bool" where
  "is_enable (Called_SetEventNotificationMode mode ev res) = (mode = JVMTI_ENABLE)"
| "is_enable _ = False"

fun is_mode_call :: "action \<Rightarrow> bool" where
  "is_mode_call (Called_SetEventNotificationMode mode ev res) = True"
| "is_mode_call _ = False"

fun is_registration :: "action \<Rightarrow> bool" where
  "is_registration (Called_SetEventCallbacks table res) = True"
| "is_registration _ = False"

text \<open>A store into the callback table or a registration of it.\<close>

fun is_table_action :: "action \<Rightarrow> bool" where
  "is_table_action (Wrote_callbacks table) = True"
| "is_table_action (Called_SetEventCallbacks table res) = True"
| "is_table_action _ = False"

text \<open>
  Every enable call has the whole of \<open>registration_block\<close> somewhere before it: scanning
  from the left, the block starts before the first enable call is met.
\<close>

fun enables_guarded :: "action list \<Rightarrow> bool" where
  "enables_guarded [] = True"
| "enables_guarded (a # as) =
     (take (length registration_block) (a # as) = registration_block
      \<or> (\<not> is_enable a \<and> enables_guarded as))"

text \<open>After the first registration the table is neither stored into nor registered again.\<close>

fun frozen_after_registration :: "action list \<Rightarrow> bool" where
  "frozen_after_registration [] = True"
| "frozen_after_registration (a # as) =
     (if is_registration a then list_all (\<lambda>b. \<not> is_table_action b) as
      else frozen_after_registration as)"

text \<open>The arguments of the \<^verbatim>\<open>AddCapabilities\<close> calls, in order.\<close>

fun capability_requests :: "action list \<Rightarrow> jvmtiCapabilities list" where
  "capability_requests [] = []"
| "capability_requests (Called_AddCapabilities capas err # as) = capas # capability_requests as"
| "capability_requests (a # as) = capability_requests as"

text \<open>The text written to one stream, the strings handed to the option parser, and the
  events of the \<^verbatim>\<open>SetEventNotificationMode(JVMTI_ENABLE, ...)\<close> calls.\<close>

fun printed_on :: "stream \<Rightarrow> action list \<Rightarrow> string list" where
  "printed_on f [] = []"
| "printed_on f (Printed g text # as) =
     (if g = f then text # printed_on f as else printed_on f as)"
| "printed_on f (a # as) = printed_on f as"

fun parser_calls :: "action list \<Rightarrow> string list" where
  "parser_calls [] = []"
| "parser_calls (Called_parse_options_and_extract_params options # as) = options # parser_calls as"
| "parser_calls (a # as) = parser_calls as"

fun enable_calls :: "action list \<Rightarrow> jvmtiEvent list" where
  "enable_calls [] = []"
| "enable_calls (Called_SetEventNotificationMode mode ev res # as) =
     (if mode = JVMTI_ENABLE then ev # enable_calls as else enable_calls as)"
| "enable_calls (a # as) = enable_calls as"

subsection \<open>The process: the calls the VM makes\<close>

text \<open>
  The VM drives the agent. Over the lifetime of a process it calls the two entry points
  any number of times, in any order; each call comes with the replies the VM gives while
  it runs. A fault ends the process, so the calls after it do not happen.
\<close>

datatype entry_call =
    JNI_OnLoad_call host
  | Agent_OnLoad_call host "string option"

fun exec_call :: "bool \<Rightarrow> entry_call \<Rightarrow> jint prog" where
  "exec_call jni_1_6 (JNI_OnLoad_call h) = JNI_OnLoad jni_1_6 h"
| "exec_call jni_1_6 (Agent_OnLoad_call h options) = Agent_OnLoad jni_1_6 h options"

fun run_calls :: "bool \<Rightarrow> entry_call list \<Rightarrow> unit prog" where
  "run_calls jni_1_6 [] s = Inr ((), s)"
| "run_calls jni_1_6 (c # cs) s =
     (case exec_call jni_1_6 c s of
        Inl e \<Rightarrow> Inl e
      | Inr (r, s') \<Rightarrow> run_calls jni_1_6 cs s')"

fun is_JNI_OnLoad_call :: "entry_call \<Rightarrow> bool" where
  "is_JNI_OnLoad_call (JNI_OnLoad_call h) = True"
| "is_JNI_OnLoad_call (Agent_OnLoad_call h options) = False"

text \<open>A call of \<^verbatim>\<open>Agent_OnLoad\<close> whose option string has a comma.\<close>

fun well_formed_attach :: "entry_call \<Rightarrow> bool" where
  "well_formed_attach (Agent_OnLoad_call h (Some opts)) = (CHR '','' \<in> set opts)"
| "well_formed_attach (Agent_OnLoad_call h None) = False"
| "well_formed_attach (JNI_OnLoad_call h) = False"

text \<open>
  The stores into the table and the registrations that one returning call makes; \<open>attached\<close>
  says whether an earlier call of the process has returned. \<^verbatim>\<open>JNI_OnLoad\<close> makes them
  in the first call only. \<^verbatim>\<open>Agent_OnLoad\<close> makes the whole registration block in every
  call, and on the well-formed-options path the store into the \<open>VMInit\<close> slot and a second
  registration after it.
\<close>

fun call_table_actions :: "bool \<Rightarrow> entry_call \<Rightarrow> action list" where
  "call_table_actions attached (JNI_OnLoad_call h) =
     (if attached then [] else registration_block)"
| "call_table_actions attached (Agent_OnLoad_call h options) =
     registration_block
     @ (if well_formed_attach (Agent_OnLoad_call h options)
        then [Wrote_callbacks (agent_callbacks\<lparr>VMInit := Some vm_init_hook\<rparr>),
              Called_SetEventCallbacks (agent_callbacks\<lparr>VMInit := Some vm_init_hook\<rparr>)
                (SetEventCallbacks_reply h (agent_callbacks\<lparr>VMInit := Some vm_init_hook\<rparr>))]
        else [])"

fun process_table_actions :: "bool \<Rightarrow> entry_call list \<Rightarrow> action list" where
  "process_table_actions attached [] = []"
| "process_table_actions attached (c # cs) =
     call_table_actions attached c @ process_table_actions True cs"

subsection \<open>Two hosts to run the code on\<close>

text \<open>A VM that grants everything, and one that refuses the capabilities with
  \<^verbatim>\<open>JVMTI_ERROR_NOT_AVAILABLE\<close> (98).\<close>

definition granting_host :: host where
  "granting_host =
     \<lparr>GetEnv_reply = (\<lambda>v. Some 1),
      GetCapabilities_reply = (JVMTI_ERROR_NONE, {}),
      AddCapabilities_reply = (\<lambda>capas. JVMTI_ERROR_NONE),
      SetEventCallbacks_reply = (\<lambda>table. JVMTI_ERROR_NONE),
      SetEventNotificationMode_reply = (\<lambda>mode ev. JVMTI_ERROR_NONE)\<rparr>"

definition refusing_host :: host where
  "refusing_host = granting_host\<lparr>AddCapabilities_reply := (\<lambda>capas. 98)\<rparr>"

text \<open>A VM that grants everything up to the four notifications and then answers
  \<^verbatim>\<open>JVMTI_ERROR_INTERNAL\<close> (113) to the registration of a table with a \<open>VMInit\<close> hook and
  to the enabling of \<^verbatim>\<open>JVMTI_EVENT_VM_INIT\<close>.\<close>

definition vm_init_refusing_host :: host where
  "vm_init_refusing_host =
     granting_host
       \<lparr>SetEventCallbacks_reply := (\<lambda>table. if VMInit table = None then JVMTI_ERROR_NONE else 113),
        SetEventNotificationMode_reply :=
          (\<lambda>mode ev. if ev = JVMTI_EVENT_VM_INIT then 113 else JVMTI_ERROR_NONE)\<rparr>"

section \<open>Properties\<close>

declare show_nat.simps [simp del]

lemmas prog_defs = bind_def return_def assert_def fprintf_def log_def GetEnv_def
  GetCapabilities_def AddCapabilities_def SetEventCallbacks_def SetEventNotificationMode_def
  store_callbacks_def memset_callbacks_def Let_def

lemma populated:
  "zeroed_callbacks\<lparr>ClassFileLoadHook := Some class_file_load_hook,
     NativeMethodBind := Some native_method_bind_hook,
     MonitorContendedEnter := Some monitor_contended_enter_hook,
     MonitorContendedEntered := Some monitor_contended_entered_hook,
     VMObjectAlloc := Some vm_object_alloc\<rparr> = agent_callbacks"
  by (simp add: zeroed_callbacks_def agent_callbacks_def)

subsection \<open>The initialization sequence\<close>

lemma initializeJVMTI_ok:
  assumes "init_ok v h"
  shows "initializeJVMTI v h s = Inr ((), initialized v h (trace s @ init_actions v h))"
proof -
  obtain env where env: "GetEnv_reply h (requested_version v) = Some env"
    using assms by (auto simp: init_ok_def)
  obtain capas where capas: "GetCapabilities_reply h = (JVMTI_ERROR_NONE, capas)"
    using assms by (cases "GetCapabilities_reply h") (auto simp: init_ok_def)
  show ?thesis
    using assms env capas
    by (simp add: initializeJVMTI_def init_ok_def prog_defs populated initialized_def
        init_actions_def negotiation_def registration_block_def four_enables_def
        capability_error_line_def)
qed

lemma initializeJVMTI_fault:
  assumes "\<not> init_ok v h"
  shows "isl (initializeJVMTI v h s)"
proof (cases "GetEnv_reply h (requested_version v)")
  case None
  then show ?thesis by (simp add: initializeJVMTI_def prog_defs)
next
  case (Some env)
  obtain err capas where capas: "GetCapabilities_reply h = (err, capas)"
    by (cases "GetCapabilities_reply h")
  show ?thesis
    using assms Some capas
    by (simp add: initializeJVMTI_def init_ok_def prog_defs populated)
qed

lemma initializeJVMTI_isl: "isl (initializeJVMTI v h s) \<longleftrightarrow> \<not> init_ok v h"
  using initializeJVMTI_ok [of v h s] initializeJVMTI_fault [of v h s] by auto

lemma granting_host_ok: "init_ok v granting_host"
  by (simp add: init_ok_def granting_host_def)

lemma refusing_host_ok: "init_ok v refusing_host"
  by (simp add: init_ok_def granting_host_def refusing_host_def)

subsection \<open>C1: a failed capability negotiation does not stop the initialization\<close>

text \<open>
  C1. Whether \<^verbatim>\<open>initializeJVMTI\<close> runs to its end does not depend on what the VM answers
  to \<^verbatim>\<open>AddCapabilities\<close>. When the answer is an error code \<open>err\<close> and every asserted call
  succeeds, the function returns, and between the \<^verbatim>\<open>AddCapabilities\<close> call and the
  registration of the callback table it has written one line to standard error, which
  carries \<open>err\<close> in decimal; the table is registered and the four event notifications are
  enabled as in a run without the error.
\<close>

theorem AddCapabilities_failure_tolerated:
  "(isl (initializeJVMTI v (h\<lparr>AddCapabilities_reply := r\<rparr>) s) \<longleftrightarrow> isl (initializeJVMTI v h s))
   \<and> (init_ok v h \<longrightarrow>
        AddCapabilities_reply h (requested_capabilities v (snd (GetCapabilities_reply h))) = err \<longrightarrow>
        err \<noteq> JVMTI_ERROR_NONE \<longrightarrow>
        initializeJVMTI v h s =
          Inr ((), initialized v h
             (trace s @
              [Called_GetEnv (requested_version v) (GetEnv_reply h (requested_version v)),
               Called_GetCapabilities JVMTI_ERROR_NONE (snd (GetCapabilities_reply h)),
               Called_AddCapabilities
                 (requested_capabilities v (snd (GetCapabilities_reply h))) err,
               Printed stderr
                 (''Profiler Agent Error: Failed to obtain JVMTI capabilities, error code: ''
                  @ show_int err @ ''\<newline>'')]
              @ registration_block @ four_enables)))"
proof -
  have "init_ok v (h\<lparr>AddCapabilities_reply := r\<rparr>) = init_ok v h"
    by (simp add: init_ok_def)
  then have "isl (initializeJVMTI v (h\<lparr>AddCapabilities_reply := r\<rparr>) s) \<longleftrightarrow> isl (initializeJVMTI v h s)"
    by (simp only: initializeJVMTI_isl)
  moreover have "initializeJVMTI v h s =
          Inr ((), initialized v h
             (trace s @
              [Called_GetEnv (requested_version v) (GetEnv_reply h (requested_version v)),
               Called_GetCapabilities JVMTI_ERROR_NONE (snd (GetCapabilities_reply h)),
               Called_AddCapabilities
                 (requested_capabilities v (snd (GetCapabilities_reply h))) err,
               Printed stderr
                 (''Profiler Agent Error: Failed to obtain JVMTI capabilities, error code: ''
                  @ show_int err @ ''\<newline>'')]
              @ registration_block @ four_enables))"
    if "init_ok v h"
      and "AddCapabilities_reply h (requested_capabilities v (snd (GetCapabilities_reply h))) = err"
      and "err \<noteq> JVMTI_ERROR_NONE"
    using that initializeJVMTI_ok [of v h s]
    by (simp add: init_actions_def negotiation_def capability_error_line_def)
  ultimately show ?thesis by blast
qed

text \<open>A run on the host that answers 98 to \<^verbatim>\<open>AddCapabilities\<close>.\<close>

theorem AddCapabilities_failure_tolerated_witness:
  "init_ok True refusing_host
   \<and> AddCapabilities_reply refusing_host
       (requested_capabilities True (snd (GetCapabilities_reply refusing_host))) = 98
   \<and> (98 :: jvmtiError) \<noteq> JVMTI_ERROR_NONE
   \<and> \<not> isl (initializeJVMTI True refusing_host initial_state)
   \<and> printed_on stderr (trace (final_state (initializeJVMTI True refusing_host initial_state)))
       = [''Profiler Agent Error: Failed to obtain JVMTI capabilities, error code: 98\<newline>'']
   \<and> enable_calls (trace (final_state (initializeJVMTI True refusing_host initial_state)))
       = [JVMTI_EVENT_CLASS_FILE_LOAD_HOOK, JVMTI_EVENT_NATIVE_METHOD_BIND,
          JVMTI_EVENT_MONITOR_CONTENDED_ENTER, JVMTI_EVENT_MONITOR_CONTENDED_ENTERED]"
proof -
  have ok: "init_ok True refusing_host" by (rule refusing_host_ok)
  have r: "AddCapabilities_reply refusing_host
       (requested_capabilities True (snd (GetCapabilities_reply refusing_host))) = 98"
    by (simp add: refusing_host_def granting_host_def)
  have ne: "(98 :: jvmtiError) \<noteq> JVMTI_ERROR_NONE" by (simp add: JVMTI_ERROR_NONE_def)
  have n: "show_int 98 = ''98''" by (simp add: show_int_def show_nat.simps)
  from AddCapabilities_failure_tolerated [where v = True and h = refusing_host and s = initial_state and err = 98] ok r ne
  have "initializeJVMTI True refusing_host initial_state =
          Inr ((), initialized True refusing_host
             (trace initial_state @
              [Called_GetEnv (requested_version True) (GetEnv_reply refusing_host (requested_version True)),
               Called_GetCapabilities JVMTI_ERROR_NONE (snd (GetCapabilities_reply refusing_host)),
               Called_AddCapabilities
                 (requested_capabilities True (snd (GetCapabilities_reply refusing_host))) 98,
               Printed stderr
                 (''Profiler Agent Error: Failed to obtain JVMTI capabilities, error code: ''
                  @ show_int 98 @ ''\<newline>'')]
              @ registration_block @ four_enables))"
    by blast
  then show ?thesis
    using ok r ne
    by (simp add: n initialized_def initial_state_def registration_block_def four_enables_def)
qed

subsection \<open>C2: no notification is enabled before the table is registered\<close>

lemma enables_guarded_split:
  "enables_guarded as \<Longrightarrow> as = pre @ x # post \<Longrightarrow> is_enable x \<Longrightarrow>
   \<exists>a c. pre = a @ registration_block @ c"
proof (induction as arbitrary: pre)
  case Nil
  then show ?case by simp
next
  case (Cons b bs)
  show ?case
  proof (cases "take (length registration_block) (b # bs) = registration_block")
    case True
    have ne: "\<not> is_enable y" if "y \<in> set registration_block" for y
      using that by (auto simp: registration_block_def)
    have "b # bs = registration_block @ drop (length registration_block) (b # bs)"
      using True append_take_drop_id [of "length registration_block" "b # bs"] by simp
    with Cons.prems(2)
    have "registration_block @ drop (length registration_block) (b # bs) = pre @ x # post"
      by simp
    then obtain us where
      "(registration_block = pre @ us
          \<and> us @ drop (length registration_block) (b # bs) = x # post)
       \<or> (registration_block @ us = pre
          \<and> drop (length registration_block) (b # bs) = us @ x # post)"
      unfolding append_eq_append_conv2 by blast
    then show ?thesis
    proof
      assume l: "registration_block = pre @ us
                 \<and> us @ drop (length registration_block) (b # bs) = x # post"
      show ?thesis
      proof (cases us)
        case Nil
        with l have "pre = [] @ registration_block @ []" by simp
        then show ?thesis by blast
      next
        case (Cons u us')
        with l have "x \<in> set registration_block"
          by (metis append_Cons in_set_conv_decomp list.inject)
        with ne Cons.prems(3) show ?thesis by blast
      qed
    next
      assume "registration_block @ us = pre
              \<and> drop (length registration_block) (b # bs) = us @ x # post"
      then have "pre = [] @ registration_block @ us" by simp
      then show ?thesis by blast
    qed
  next
    case False
    with Cons.prems(1) have nb: "\<not> is_enable b" and g: "enables_guarded bs" by simp_all
    from nb Cons.prems obtain pre' where pre: "pre = b # pre'" and bs: "bs = pre' @ x # post"
      by (cases pre) auto
    from Cons.IH [OF g bs Cons.prems(3)] obtain a c where "pre' = a @ registration_block @ c"
      by blast
    then have "pre = (b # a) @ registration_block @ c" using pre by simp
    then show ?thesis by blast
  qed
qed

lemma initializeJVMTI_guarded:
  "enables_guarded (actions_of s (initializeJVMTI v h s))"
proof (cases "GetEnv_reply h (requested_version v)")
  case None
  then show ?thesis by (simp add: initializeJVMTI_def prog_defs actions_of_def)
next
  case (Some env)
  obtain err capas where capas: "GetCapabilities_reply h = (err, capas)"
    by (cases "GetCapabilities_reply h")
  show ?thesis
    using Some capas
    by (simp add: initializeJVMTI_def prog_defs populated actions_of_def registration_block_def)
qed

text \<open>
  C2. In every run of \<^verbatim>\<open>initializeJVMTI\<close>, whatever the VM answers and wherever the run
  stops, the actions before a \<^verbatim>\<open>SetEventNotificationMode(JVMTI_ENABLE, ...)\<close> call contain
  the whole registration block: the \<^verbatim>\<open>memset\<close> of the table, the five stores that fill
  the class-file-load, native-method-bind, monitor-contended-enter, monitor-contended-entered
  and object-allocation slots, and a \<^verbatim>\<open>SetEventCallbacks\<close> call that passed that table
  and succeeded.
\<close>

theorem no_enable_before_registration:
  assumes "actions_of s (initializeJVMTI v h s)
             = pre @ Called_SetEventNotificationMode JVMTI_ENABLE ev res # post"
  shows "\<exists>a c. pre = a @ registration_block @ c"
  using initializeJVMTI_guarded [of s v h] assms
    enables_guarded_split
      [of "actions_of s (initializeJVMTI v h s)" pre
          "Called_SetEventNotificationMode JVMTI_ENABLE ev res" post]
  by simp

text \<open>The first enable call of a run on the granting host, and what precedes it.\<close>

theorem no_enable_before_registration_witness:
  "actions_of initial_state (initializeJVMTI True granting_host initial_state)
     = (negotiation True granting_host @ registration_block)
       @ Called_SetEventNotificationMode JVMTI_ENABLE JVMTI_EVENT_CLASS_FILE_LOAD_HOOK
           JVMTI_ERROR_NONE
       # tl four_enables
   \<and> (\<exists>a c. negotiation True granting_host @ registration_block = a @ registration_block @ c)"
proof -
  have e: "actions_of initial_state (initializeJVMTI True granting_host initial_state)
     = (negotiation True granting_host @ registration_block)
       @ Called_SetEventNotificationMode JVMTI_ENABLE JVMTI_EVENT_CLASS_FILE_LOAD_HOOK
           JVMTI_ERROR_NONE
       # tl four_enables"
    by (simp add: initializeJVMTI_ok [OF granting_host_ok] actions_of_def initialized_def
        initial_state_def init_actions_def four_enables_def)
  from no_enable_before_registration [OF e] e show ?thesis by blast
qed

subsection \<open>C9: the capabilities requested\<close>

lemma requested_capabilities_eq:
  "requested_capabilities v current =
     current
     \<union> {can_redefine_classes, can_generate_garbage_collection_events,
        can_generate_native_method_bind_events, can_generate_monitor_events,
        can_get_current_thread_cpu_time, can_generate_vm_object_alloc_events,
        can_get_monitor_info}
     \<union> (if v then {can_retransform_classes} else {})"
  by (auto simp: requested_capabilities_def)

lemma initializeJVMTI_requests:
  assumes "GetEnv_reply h (requested_version v) = Some env"
    and "GetCapabilities_reply h = (JVMTI_ERROR_NONE, current)"
  shows "capability_requests (actions_of s (initializeJVMTI v h s))
         = [requested_capabilities v current]"
  using assms
  by (simp add: initializeJVMTI_def prog_defs populated actions_of_def)

text \<open>
  C9. When \<^verbatim>\<open>GetEnv\<close> yields an environment and \<^verbatim>\<open>GetCapabilities\<close> succeeds with the
  set \<open>current\<close>, every run of \<^verbatim>\<open>initializeJVMTI\<close> calls \<^verbatim>\<open>AddCapabilities\<close> exactly once,
  with \<open>current\<close> plus class redefinition, garbage-collection events, native-method-bind
  events, monitor events, current-thread CPU time, VM object-allocation events and monitor
  info, and plus class retransformation when \<^verbatim>\<open>JNI_VERSION_1_6\<close> is defined and not
  otherwise.
\<close>

theorem requested_capability_set:
  assumes "GetEnv_reply h (requested_version jni_1_6) = Some env"
    and "GetCapabilities_reply h = (JVMTI_ERROR_NONE, current)"
  shows "capability_requests (actions_of s (initializeJVMTI jni_1_6 h s))
         = [current
            \<union> {can_redefine_classes, can_generate_garbage_collection_events,
               can_generate_native_method_bind_events, can_generate_monitor_events,
               can_get_current_thread_cpu_time, can_generate_vm_object_alloc_events,
               can_get_monitor_info}
            \<union> (if jni_1_6 then {can_retransform_classes} else {})]"
  using initializeJVMTI_requests [OF assms] by (simp only: requested_capabilities_eq)

text \<open>A host that already reports one capability; the header without \<^verbatim>\<open>JNI_VERSION_1_6\<close>.\<close>

theorem requested_capability_set_witness:
  "GetEnv_reply (granting_host\<lparr>GetCapabilities_reply := (JVMTI_ERROR_NONE, {other_capability 0})\<rparr>)
     (requested_version False) = Some 1
   \<and> GetCapabilities_reply
       (granting_host\<lparr>GetCapabilities_reply := (JVMTI_ERROR_NONE, {other_capability 0})\<rparr>)
     = (JVMTI_ERROR_NONE, {other_capability 0})
   \<and> capability_requests (actions_of initial_state
       (initializeJVMTI False
          (granting_host\<lparr>GetCapabilities_reply := (JVMTI_ERROR_NONE, {other_capability 0})\<rparr>)
          initial_state))
     = [{other_capability 0, can_redefine_classes, can_generate_garbage_collection_events,
         can_generate_native_method_bind_events, can_generate_monitor_events,
         can_get_current_thread_cpu_time, can_generate_vm_object_alloc_events,
         can_get_monitor_info}]"
proof -
  let ?h = "granting_host\<lparr>GetCapabilities_reply := (JVMTI_ERROR_NONE, {other_capability 0})\<rparr>"
  have g: "GetEnv_reply ?h (requested_version False) = Some 1"
    by (simp add: granting_host_def)
  have c: "GetCapabilities_reply ?h = (JVMTI_ERROR_NONE, {other_capability 0})"
    by simp
  from requested_capability_set [OF g c, of initial_state] g c show ?thesis
    by auto
qed

subsection \<open>The dynamic-attach entry\<close>

lemma strpbrk_None: "strpbrk s accept = None \<longleftrightarrow> set s \<inter> set accept = {}"
proof -
  have "strpbrk s accept = None \<longleftrightarrow> dropWhile (\<lambda>c. c \<notin> set accept) s = []"
    by (simp add: strpbrk_def split: list.split del: dropWhile_eq_Nil_conv)
  also have "\<dots> \<longleftrightarrow> (\<forall>x \<in> set s. x \<notin> set accept)"
    by (simp only: dropWhile_eq_Nil_conv)
  also have "\<dots> \<longleftrightarrow> set s \<inter> set accept = {}"
    by blast
  finally show ?thesis .
qed

lemma strpbrk_comma: "strpbrk s '','' = None \<longleftrightarrow> CHR '','' \<notin> set s"
  by (simp add: strpbrk_None)

lemma report_usage_run:
  "report_usage s = Inr ((), s\<lparr>trace := trace s @ map (Printed stderr) usage_message\<rparr>)"
  by (simp add: report_usage_def prog_defs usage_message_def)

lemma Agent_OnLoad_fault:
  assumes "\<not> init_ok v h"
  shows "isl (Agent_OnLoad v h options s)"
  using initializeJVMTI_fault [OF assms, of "log (Printed stdout ''Profiler Agent: Initializing...\<newline>'') s"]
  by (auto simp: Agent_OnLoad_def bind_def fprintf_def isl_def)

lemma Agent_OnLoad_calibration:
  assumes "init_ok v h" and "options = None \<or> options = Some []"
  shows "Agent_OnLoad v h options s =
     Inr (0, initialized v h
        (trace s @ Printed stdout ''Profiler Agent: Initializing...\<newline>'' # init_actions v h
         @ [Printed stdout
              (case options of None \<Rightarrow> ''Profiler Agent: No options\<newline>''
               | Some opts \<Rightarrow> ''Profiler Agent: Options: >'' @ opts @ ''<\<newline>''),
            Printed stdout ''Profiler Agent: Initialized successfully\<newline>'']))"
  using assms(2)
  by (auto simp: Agent_OnLoad_def bind_def fprintf_def return_def log_def strlen_def
      initializeJVMTI_ok [OF assms(1)] initialized_def)

lemma Agent_OnLoad_usage:
  assumes "init_ok v h" and "opts \<noteq> []" and "CHR '','' \<notin> set opts"
  shows "Agent_OnLoad v h (Some opts) s =
     Inr (- 1, initialized v h
        (trace s @ Printed stdout ''Profiler Agent: Initializing...\<newline>'' # init_actions v h
         @ Printed stdout (''Profiler Agent: Options: >'' @ opts @ ''<\<newline>'')
         # map (Printed stderr) usage_message))"
  using assms(2,3)
  by (simp add: Agent_OnLoad_def bind_def fprintf_def return_def log_def strlen_def
      strpbrk_comma report_usage_run initializeJVMTI_ok [OF assms(1)] initialized_def)

lemma Agent_OnLoad_armed:
  assumes "init_ok v h" and "CHR '','' \<in> set opts"
  shows "Agent_OnLoad v h (Some opts) s =
     Inr (0, (initialized v h
        (trace s @ Printed stdout ''Profiler Agent: Initializing...\<newline>'' # init_actions v h
         @ [Printed stdout (''Profiler Agent: Options: >'' @ opts @ ''<\<newline>''),
            Called_parse_options_and_extract_params opts,
            Wrote_callbacks armed_callbacks,
            Called_SetEventCallbacks armed_callbacks (SetEventCallbacks_reply h armed_callbacks),
            Called_SetEventNotificationMode JVMTI_ENABLE JVMTI_EVENT_VM_INIT
              (SetEventNotificationMode_reply h JVMTI_ENABLE JVMTI_EVENT_VM_INIT),
            Printed stdout ''Profiler Agent: Initialized successfully\<newline>'']))
        \<lparr>jvmti_callbacks_static := armed_callbacks\<rparr>)"
proof -
  obtain env where env: "GetEnv_reply h (requested_version v) = Some env"
    using assms(1) by (auto simp: init_ok_def)
  from assms(2) have ne: "opts \<noteq> []" by auto
  show ?thesis
    using assms(2) ne env
    by (simp add: Agent_OnLoad_def prog_defs strlen_def parse_options_and_extract_params_def
        strpbrk_comma initializeJVMTI_ok [OF assms(1)] initialized_def armed_callbacks_def)
qed

subsection \<open>Observations on the traces of the entry points\<close>

lemma parser_calls_append: "parser_calls (xs @ ys) = parser_calls xs @ parser_calls ys"
  by (induction xs rule: parser_calls.induct) simp_all

lemma enable_calls_append: "enable_calls (xs @ ys) = enable_calls xs @ enable_calls ys"
  by (induction xs rule: enable_calls.induct) simp_all

lemma printed_on_append: "printed_on f (xs @ ys) = printed_on f xs @ printed_on f ys"
  by (induction f xs rule: printed_on.induct) simp_all

lemma capability_requests_append:
  "capability_requests (xs @ ys) = capability_requests xs @ capability_requests ys"
  by (induction xs rule: capability_requests.induct) simp_all

lemma printed_on_map: "printed_on f (map (Printed f) ls) = ls"
  by (induction ls) simp_all

lemma parser_calls_map_Printed: "parser_calls (map (Printed f) ls) = []"
  by (induction ls) simp_all

lemma enable_calls_map_Printed: "enable_calls (map (Printed f) ls) = []"
  by (induction ls) simp_all

lemma filter_map_Printed:
  "filter is_table_action (map (Printed f) ls) = []"
  "filter is_mode_call (map (Printed f) ls) = []"
  "capability_requests (map (Printed f) ls) = []"
  by (induction ls) simp_all

lemma parser_calls_init: "parser_calls (init_actions v h) = []"
  by (simp add: init_actions_def negotiation_def registration_block_def four_enables_def Let_def)

lemma enable_calls_init:
  "enable_calls (init_actions v h) =
     [JVMTI_EVENT_CLASS_FILE_LOAD_HOOK, JVMTI_EVENT_NATIVE_METHOD_BIND,
      JVMTI_EVENT_MONITOR_CONTENDED_ENTER, JVMTI_EVENT_MONITOR_CONTENDED_ENTERED]"
  by (simp add: init_actions_def negotiation_def registration_block_def four_enables_def Let_def)

lemma printed_on_stderr_init:
  "printed_on stderr (init_actions v h) =
     (let err = AddCapabilities_reply h (requested_capabilities v (snd (GetCapabilities_reply h)))
      in if err \<noteq> JVMTI_ERROR_NONE then [capability_error_line err] else [])"
  by (simp add: init_actions_def negotiation_def registration_block_def four_enables_def Let_def)

lemma table_actions_init: "filter is_table_action (init_actions v h) = registration_block"
  by (simp add: init_actions_def negotiation_def registration_block_def four_enables_def Let_def)

lemma mode_calls_init: "filter is_mode_call (init_actions v h) = four_enables"
  by (simp add: init_actions_def negotiation_def registration_block_def four_enables_def Let_def)

lemma capability_requests_init:
  "capability_requests (init_actions v h)
   = [requested_capabilities v (snd (GetCapabilities_reply h))]"
  by (simp add: init_actions_def negotiation_def registration_block_def four_enables_def Let_def)

lemma capability_error_line_not_usage: "capability_error_line err \<notin> set usage_message"
  by (simp add: capability_error_line_def usage_message_def)

lemma no_usage_in_init: "set usage_message \<inter> set (printed_on stderr (init_actions v h)) = {}"
  using capability_error_line_not_usage
  by (auto simp: printed_on_stderr_init Let_def)

lemma actions_of_initialized:
  "actions_of s (Inr (x, initialized v h (trace s @ as))) = as"
  "actions_of s (Inr (x, (initialized v h (trace s @ as))\<lparr>jvmti_callbacks_static := t\<rparr>)) = as"
  by (simp_all add: actions_of_def initialized_def)

subsection \<open>C3: options without a comma\<close>

text \<open>
  C3. For a non-empty option string without a comma, and a VM on which the initialization
  sequence runs to its end, \<^verbatim>\<open>Agent_OnLoad\<close> returns \<open>-1\<close> to its caller (it does not end
  the process). After the initialization it writes the options line to standard output
  and the three lines of the usage message to standard error and does nothing else: the
  option parser is not called, \<^verbatim>\<open>JVMTI_EVENT_VM_INIT\<close> is not enabled and the \<open>VMInit\<close> slot
  stays null.
\<close>

theorem usage_error_reported:
  assumes "init_ok v h" and "opts \<noteq> []" and "CHR '','' \<notin> set opts"
  shows "Agent_OnLoad v h (Some opts) s =
           Inr (- 1, initialized v h
              (trace s @ Printed stdout ''Profiler Agent: Initializing...\<newline>''
               # init_actions v h
               @ Printed stdout (''Profiler Agent: Options: >'' @ opts @ ''<\<newline>'')
               # map (Printed stderr) usage_message))
         \<and> parser_calls (actions_of s (Agent_OnLoad v h (Some opts) s)) = []
         \<and> JVMTI_EVENT_VM_INIT \<notin> set (enable_calls (actions_of s (Agent_OnLoad v h (Some opts) s)))
         \<and> VMInit (jvmti_callbacks_static (final_state (Agent_OnLoad v h (Some opts) s))) = None"
  by (simp add: Agent_OnLoad_usage [OF assms] actions_of_initialized parser_calls_append
      enable_calls_append parser_calls_init enable_calls_init parser_calls_map_Printed
      enable_calls_map_Printed)
    (simp add: initialized_def agent_callbacks_def)

text \<open>The option string \<open>5500\<close> on the granting host.\<close>

theorem usage_error_reported_witness:
  "init_ok True granting_host \<and> ''5500'' \<noteq> [] \<and> CHR '','' \<notin> set ''5500''
   \<and> map_sum fst fst (Agent_OnLoad True granting_host (Some ''5500'') initial_state) = Inr (- 1)
   \<and> printed_on stderr
        (actions_of initial_state (Agent_OnLoad True granting_host (Some ''5500'') initial_state))
      = usage_message
   \<and> parser_calls
        (actions_of initial_state (Agent_OnLoad True granting_host (Some ''5500'') initial_state))
      = []"
proof -
  have a: "''5500'' \<noteq> []" and b: "CHR '','' \<notin> set ''5500''" by simp_all
  have c: "AddCapabilities_reply granting_host capas = JVMTI_ERROR_NONE" for capas
    by (simp add: granting_host_def)
  note t = usage_error_reported [OF granting_host_ok a b, of True initial_state]
  have e: "Agent_OnLoad True granting_host (Some ''5500'') initial_state =
           Inr (- 1, initialized True granting_host
              (trace initial_state @ Printed stdout ''Profiler Agent: Initializing...\<newline>''
               # init_actions True granting_host
               @ Printed stdout (''Profiler Agent: Options: >'' @ ''5500'' @ ''<\<newline>'')
               # map (Printed stderr) usage_message))"
    using t by blast
  have pc: "parser_calls
        (actions_of initial_state (Agent_OnLoad True granting_host (Some ''5500'') initial_state))
      = []"
    using t by blast
  have "printed_on stderr
        (actions_of initial_state (Agent_OnLoad True granting_host (Some ''5500'') initial_state))
      = usage_message"
    by (simp add: e actions_of_initialized printed_on_append printed_on_stderr_init
        printed_on_map c)
  moreover
  have "map_sum fst fst (Agent_OnLoad True granting_host (Some ''5500'') initial_state)
        = Inr (- 1)"
    by (simp add: e)
  ultimately show ?thesis
    using a b pc granting_host_ok by blast
qed

subsection \<open>C4: options with a comma\<close>

text \<open>
  C4. For an option string that contains a comma, whatever follows the comma, and a VM on
  which the initialization sequence runs to its end, \<^verbatim>\<open>Agent_OnLoad\<close> returns 0. After the
  initialization and the options line it calls the option parser with the whole string,
  stores \<^verbatim>\<open>vm_init_hook\<close> into the \<open>VMInit\<close> slot (the one slot it adds), registers the
  table, enables \<^verbatim>\<open>JVMTI_EVENT_VM_INIT\<close> and reports success on standard output. No line of
  the usage message is written.
\<close>

theorem well_formed_options_arm_VMInit:
  assumes "init_ok v h" and "CHR '','' \<in> set opts"
  shows "Agent_OnLoad v h (Some opts) s =
           Inr (0, (initialized v h
              (trace s @ Printed stdout ''Profiler Agent: Initializing...\<newline>''
               # init_actions v h
               @ [Printed stdout (''Profiler Agent: Options: >'' @ opts @ ''<\<newline>''),
                  Called_parse_options_and_extract_params opts,
                  Wrote_callbacks (agent_callbacks\<lparr>VMInit := Some vm_init_hook\<rparr>),
                  Called_SetEventCallbacks (agent_callbacks\<lparr>VMInit := Some vm_init_hook\<rparr>)
                    (SetEventCallbacks_reply h (agent_callbacks\<lparr>VMInit := Some vm_init_hook\<rparr>)),
                  Called_SetEventNotificationMode JVMTI_ENABLE JVMTI_EVENT_VM_INIT
                    (SetEventNotificationMode_reply h JVMTI_ENABLE JVMTI_EVENT_VM_INIT),
                  Printed stdout ''Profiler Agent: Initialized successfully\<newline>'']))
              \<lparr>jvmti_callbacks_static := agent_callbacks\<lparr>VMInit := Some vm_init_hook\<rparr>\<rparr>)
         \<and> set usage_message
             \<inter> set (printed_on stderr (actions_of s (Agent_OnLoad v h (Some opts) s))) = {}"
  using no_usage_in_init [of v h]
  by (simp add: Agent_OnLoad_armed [OF assms] actions_of_initialized printed_on_append
      armed_callbacks_def)

text \<open>The option strings \<open>/home/me/server,5500\<close> and \<open>/home/me/server,5500,extra\<close> on the
  granting host.\<close>

theorem well_formed_options_arm_VMInit_witness:
  "init_ok True granting_host
   \<and> CHR '','' \<in> set ''/home/me/server,5500''
   \<and> CHR '','' \<in> set ''/home/me/server,5500,extra''
   \<and> map_sum fst fst (Agent_OnLoad True granting_host (Some ''/home/me/server,5500'') initial_state)
       = Inr 0
   \<and> map_sum fst fst
        (Agent_OnLoad True granting_host (Some ''/home/me/server,5500,extra'') initial_state)
       = Inr 0
   \<and> parser_calls (actions_of initial_state
        (Agent_OnLoad True granting_host (Some ''/home/me/server,5500,extra'') initial_state))
       = [''/home/me/server,5500,extra'']
   \<and> enable_calls (actions_of initial_state
        (Agent_OnLoad True granting_host (Some ''/home/me/server,5500,extra'') initial_state))
       = [JVMTI_EVENT_CLASS_FILE_LOAD_HOOK, JVMTI_EVENT_NATIVE_METHOD_BIND,
          JVMTI_EVENT_MONITOR_CONTENDED_ENTER, JVMTI_EVENT_MONITOR_CONTENDED_ENTERED,
          JVMTI_EVENT_VM_INIT]
   \<and> printed_on stderr (actions_of initial_state
        (Agent_OnLoad True granting_host (Some ''/home/me/server,5500,extra'') initial_state))
       = []"
proof -
  have a: "CHR '','' \<in> set ''/home/me/server,5500''"
    and b: "CHR '','' \<in> set ''/home/me/server,5500,extra''" by simp_all
  have c: "AddCapabilities_reply granting_host capas = JVMTI_ERROR_NONE" for capas
    by (simp add: granting_host_def)
  from well_formed_options_arm_VMInit [OF granting_host_ok a, of True initial_state]
    well_formed_options_arm_VMInit [OF granting_host_ok b, of True initial_state] a b
  show ?thesis
    by (simp add: granting_host_ok actions_of_initialized printed_on_append parser_calls_append
        enable_calls_append printed_on_stderr_init parser_calls_init enable_calls_init c)
qed

subsection \<open>C5: no options\<close>

text \<open>
  C5. For a null or an empty option string, and a VM on which the initialization sequence
  runs to its end, \<^verbatim>\<open>Agent_OnLoad\<close> returns 0. After the initialization it writes two
  lines to standard output (the options line and the success line) and does nothing else:
  the option parser is not called, \<^verbatim>\<open>JVMTI_EVENT_VM_INIT\<close> is not enabled, the \<open>VMInit\<close>
  slot stays null, and no line of the usage message is written.
\<close>

theorem calibration_run:
  assumes "init_ok v h" and "options = None \<or> options = Some []"
  shows "Agent_OnLoad v h options s =
           Inr (0, initialized v h
              (trace s @ Printed stdout ''Profiler Agent: Initializing...\<newline>''
               # init_actions v h
               @ [Printed stdout
                    (case options of None \<Rightarrow> ''Profiler Agent: No options\<newline>''
                     | Some opts \<Rightarrow> ''Profiler Agent: Options: >'' @ opts @ ''<\<newline>''),
                  Printed stdout ''Profiler Agent: Initialized successfully\<newline>'']))
         \<and> parser_calls (actions_of s (Agent_OnLoad v h options s)) = []
         \<and> JVMTI_EVENT_VM_INIT \<notin> set (enable_calls (actions_of s (Agent_OnLoad v h options s)))
         \<and> VMInit (jvmti_callbacks_static (final_state (Agent_OnLoad v h options s))) = None
         \<and> set usage_message
             \<inter> set (printed_on stderr (actions_of s (Agent_OnLoad v h options s))) = {}"
  using no_usage_in_init [of v h]
  by (simp add: Agent_OnLoad_calibration [OF assms] actions_of_initialized parser_calls_append
      enable_calls_append printed_on_append parser_calls_init enable_calls_init)
    (simp add: initialized_def agent_callbacks_def)

text \<open>The null and the empty option string on the granting host.\<close>

theorem calibration_run_witness:
  "init_ok True granting_host
   \<and> map_sum fst fst (Agent_OnLoad True granting_host None initial_state) = Inr 0
   \<and> map_sum fst fst (Agent_OnLoad True granting_host (Some []) initial_state) = Inr 0
   \<and> printed_on stdout (actions_of initial_state (Agent_OnLoad True granting_host None initial_state))
       = [''Profiler Agent: Initializing...\<newline>'', ''Profiler Agent: No options\<newline>'',
          ''Profiler Agent: Initialized successfully\<newline>'']
   \<and> printed_on stdout
        (actions_of initial_state (Agent_OnLoad True granting_host (Some []) initial_state))
       = [''Profiler Agent: Initializing...\<newline>'', ''Profiler Agent: Options: ><\<newline>'',
          ''Profiler Agent: Initialized successfully\<newline>'']"
proof -
  have c: "AddCapabilities_reply granting_host capas = JVMTI_ERROR_NONE" for capas
    by (simp add: granting_host_def)
  have p: "printed_on stdout (init_actions True granting_host) = []"
    by (simp add: init_actions_def negotiation_def registration_block_def four_enables_def c)
  from calibration_run [of True granting_host None initial_state]
    calibration_run [of True granting_host "Some []" initial_state]
  show ?thesis
    by (simp add: granting_host_ok actions_of_initialized printed_on_append p)
qed

subsection \<open>C10: the usage-error return leaves the initialization in place\<close>

text \<open>
  C10. When \<^verbatim>\<open>Agent_OnLoad\<close> returns for a non-empty option string without a comma, it
  returns \<open>-1\<close> and has undone nothing: \<^verbatim>\<open>_jvmti\<close> holds the environment, the one
  \<^verbatim>\<open>AddCapabilities\<close> call stands, the table actions of the run are the registration block
  and nothing after it (the table holds the five hooks and a null \<open>VMInit\<close> slot), the
  \<^verbatim>\<open>SetEventNotificationMode\<close> calls of the run are the four successful enables, and the
  option parser was not called.
\<close>

theorem usage_error_keeps_initialization:
  assumes "opts \<noteq> []" and "CHR '','' \<notin> set opts"
    and "Agent_OnLoad v h (Some opts) s = Inr (r, s')"
  shows "r = - 1
         \<and> jvmti s' = GetEnv_reply h (requested_version v) \<and> jvmti s' \<noteq> None
         \<and> jvmti_callbacks_static s' = agent_callbacks
         \<and> VMInit (jvmti_callbacks_static s') = None
         \<and> capability_requests (actions_of s (Agent_OnLoad v h (Some opts) s))
             = [requested_capabilities v (snd (GetCapabilities_reply h))]
         \<and> filter is_table_action (actions_of s (Agent_OnLoad v h (Some opts) s))
             = registration_block
         \<and> filter is_mode_call (actions_of s (Agent_OnLoad v h (Some opts) s)) = four_enables
         \<and> parser_calls (actions_of s (Agent_OnLoad v h (Some opts) s)) = []"
proof -
  have ok: "init_ok v h"
    using Agent_OnLoad_fault [of v h "Some opts" s] assms(3) by auto
  then have env: "GetEnv_reply h (requested_version v) \<noteq> None"
    by (simp add: init_ok_def)
  note run = Agent_OnLoad_usage [OF ok assms(1,2), of s]
  from run assms(3) have r: "r = - 1"
    and s': "s' = initialized v h
              (trace s @ Printed stdout ''Profiler Agent: Initializing...\<newline>''
               # init_actions v h
               @ Printed stdout (''Profiler Agent: Options: >'' @ opts @ ''<\<newline>'')
               # map (Printed stderr) usage_message)"
    by simp_all
  have g: "jvmti s' = GetEnv_reply h (requested_version v)"
    and t: "jvmti_callbacks_static s' = agent_callbacks"
    by (simp_all add: s' initialized_def)
  have "capability_requests (actions_of s (Agent_OnLoad v h (Some opts) s))
          = [requested_capabilities v (snd (GetCapabilities_reply h))]"
    and "filter is_table_action (actions_of s (Agent_OnLoad v h (Some opts) s))
          = registration_block"
    and "filter is_mode_call (actions_of s (Agent_OnLoad v h (Some opts) s)) = four_enables"
    and "parser_calls (actions_of s (Agent_OnLoad v h (Some opts) s)) = []"
    by (simp_all add: run actions_of_initialized capability_requests_append
        capability_requests_init table_actions_init mode_calls_init parser_calls_append
        parser_calls_init filter_map_Printed parser_calls_map_Printed)
  with r g t env show ?thesis
    by (simp add: agent_callbacks_def)
qed

text \<open>The option string \<open>5500\<close> on the host that refuses the capabilities.\<close>

theorem usage_error_keeps_initialization_witness:
  "''5500'' \<noteq> [] \<and> CHR '','' \<notin> set ''5500''
   \<and> (\<exists>s'. Agent_OnLoad False refusing_host (Some ''5500'') initial_state = Inr (- 1, s')
          \<and> jvmti s' = Some 1
          \<and> jvmti_callbacks_static s' = agent_callbacks)
   \<and> filter is_mode_call
        (actions_of initial_state (Agent_OnLoad False refusing_host (Some ''5500'') initial_state))
       = four_enables"
proof -
  have a: "''5500'' \<noteq> []" and b: "CHR '','' \<notin> set ''5500''" by simp_all
  obtain s' where run: "Agent_OnLoad False refusing_host (Some ''5500'') initial_state = Inr (- 1, s')"
    using Agent_OnLoad_usage [OF refusing_host_ok a b] by blast
  have g: "GetEnv_reply refusing_host (requested_version False) = Some 1"
    by (simp add: refusing_host_def granting_host_def)
  from usage_error_keeps_initialization [OF a b run] a b run g show ?thesis
    by simp
qed

subsection \<open>C7: the guard of the process-creation entry\<close>

lemma JNI_OnLoad_skip:
  "jvmti s \<noteq> None \<Longrightarrow> JNI_OnLoad v h s = Inr (JNI_VERSION_1_2, s)"
  by (cases "jvmti s") (simp_all add: JNI_OnLoad_def bind_def return_def)

lemma JNI_OnLoad_first:
  assumes "jvmti s = None" and "init_ok v h"
  shows "JNI_OnLoad v h s =
     Inr (JNI_VERSION_1_2, initialized v h
        (trace s @ Printed stdout ''Profiler Agent: JNI OnLoad Initializing...\<newline>''
         # init_actions v h
         @ [Printed stdout ''Profiler Agent: JNI OnLoad Initialized successfully\<newline>'']))"
  using assms(1)
  by (simp add: JNI_OnLoad_def bind_def fprintf_def return_def log_def
      initializeJVMTI_ok [OF assms(2)] initialized_def)

lemma JNI_OnLoad_fault:
  assumes "jvmti s = None" and "\<not> init_ok v h"
  shows "isl (JNI_OnLoad v h s)"
  using assms(1)
    initializeJVMTI_fault [OF assms(2),
      of "log (Printed stdout ''Profiler Agent: JNI OnLoad Initializing...\<newline>'') s"]
  by (auto simp: JNI_OnLoad_def bind_def fprintf_def isl_def)

text \<open>
  C7. \<^verbatim>\<open>JNI_OnLoad\<close> called with \<^verbatim>\<open>_jvmti\<close> already set does nothing: it returns
  \<^verbatim>\<open>JNI_VERSION_1_2\<close> and leaves the globals and the trace as they were. A call that
  returns leaves \<^verbatim>\<open>_jvmti\<close> set, so a second call after it, whatever the VM would answer
  then, is such a no-op; two calls in a row from a state without environment make
  exactly one \<^verbatim>\<open>AddCapabilities\<close> call.
\<close>

theorem JNI_OnLoad_runs_once:
  "(jvmti s \<noteq> None \<longrightarrow> JNI_OnLoad v h s = Inr (JNI_VERSION_1_2, s))
   \<and> (JNI_OnLoad v h s = Inr (r, s1) \<longrightarrow> JNI_OnLoad v h' s1 = Inr (JNI_VERSION_1_2, s1))
   \<and> (jvmti s = None \<longrightarrow> JNI_OnLoad v h s = Inr (r, s1) \<longrightarrow>
        capability_requests (actions_of s (bind (JNI_OnLoad v h) (\<lambda>_. JNI_OnLoad v h') s))
        = [requested_capabilities v (snd (GetCapabilities_reply h))])"
proof -
  have skip: "JNI_OnLoad v h s = Inr (JNI_VERSION_1_2, s)" if "jvmti s \<noteq> None"
    using that by (rule JNI_OnLoad_skip)
  have again: "JNI_OnLoad v h' s1 = Inr (JNI_VERSION_1_2, s1)
               \<and> (jvmti s = None \<longrightarrow>
                    capability_requests
                      (actions_of s (bind (JNI_OnLoad v h) (\<lambda>_. JNI_OnLoad v h') s))
                    = [requested_capabilities v (snd (GetCapabilities_reply h))])"
    if ret: "JNI_OnLoad v h s = Inr (r, s1)"
  proof (cases "jvmti s")
    case (Some env)
    with ret JNI_OnLoad_skip [of s v h] have "s1 = s" by simp
    with Some show ?thesis by (simp add: JNI_OnLoad_skip)
  next
    case None
    have ok: "init_ok v h"
      using JNI_OnLoad_fault [OF None, of v h] ret by auto
    then have env: "GetEnv_reply h (requested_version v) \<noteq> None"
      by (simp add: init_ok_def)
    note run = JNI_OnLoad_first [OF None ok]
    from run ret have s1: "s1 = initialized v h
          (trace s @ Printed stdout ''Profiler Agent: JNI OnLoad Initializing...\<newline>''
           # init_actions v h
           @ [Printed stdout ''Profiler Agent: JNI OnLoad Initialized successfully\<newline>''])"
      by simp
    have j: "jvmti s1 \<noteq> None"
      using env by (simp add: s1 initialized_def)
    have second: "JNI_OnLoad v h' s1 = Inr (JNI_VERSION_1_2, s1)"
      using j by (rule JNI_OnLoad_skip)
    have "bind (JNI_OnLoad v h) (\<lambda>_. JNI_OnLoad v h') s = Inr (JNI_VERSION_1_2, s1)"
      using ret second by (simp add: bind_def)
    then have "capability_requests
                  (actions_of s (bind (JNI_OnLoad v h) (\<lambda>_. JNI_OnLoad v h') s))
                = [requested_capabilities v (snd (GetCapabilities_reply h))]"
      by (simp add: s1 actions_of_initialized capability_requests_append
          capability_requests_init)
    with second show ?thesis by simp
  qed
  from skip again show ?thesis by blast
qed

text \<open>A call with \<^verbatim>\<open>_jvmti\<close> set, and two calls from the initial state; the second time the
  VM would refuse the environment.\<close>

theorem JNI_OnLoad_runs_once_witness:
  "jvmti (initial_state\<lparr>jvmti := Some 1\<rparr>) \<noteq> None
   \<and> JNI_OnLoad True granting_host (initial_state\<lparr>jvmti := Some 1\<rparr>)
       = Inr (JNI_VERSION_1_2, initial_state\<lparr>jvmti := Some 1\<rparr>)
   \<and> jvmti initial_state = None
   \<and> (\<exists>s1. JNI_OnLoad True granting_host initial_state = Inr (JNI_VERSION_1_2, s1)
          \<and> JNI_OnLoad True (granting_host\<lparr>GetEnv_reply := (\<lambda>v. None)\<rparr>) s1
              = Inr (JNI_VERSION_1_2, s1))
   \<and> length (capability_requests
        (actions_of initial_state
           (bind (JNI_OnLoad True granting_host)
              (\<lambda>_. JNI_OnLoad True (granting_host\<lparr>GetEnv_reply := (\<lambda>v. None)\<rparr>))
              initial_state)))
     = 1"
proof -
  have n: "jvmti initial_state = None" by (simp add: initial_state_def)
  have y: "jvmti (initial_state\<lparr>jvmti := Some 1\<rparr>) \<noteq> None" by simp
  obtain s1 where run: "JNI_OnLoad True granting_host initial_state = Inr (JNI_VERSION_1_2, s1)"
    using JNI_OnLoad_first [OF n granting_host_ok] by blast
  from JNI_OnLoad_runs_once
         [where s = "initial_state\<lparr>jvmti := Some 1\<rparr>" and v = True and h = granting_host] y
  have first: "JNI_OnLoad True granting_host (initial_state\<lparr>jvmti := Some 1\<rparr>)
       = Inr (JNI_VERSION_1_2, initial_state\<lparr>jvmti := Some 1\<rparr>)"
    by blast
  from JNI_OnLoad_runs_once
         [where s = initial_state and v = True and h = granting_host
            and h' = "granting_host\<lparr>GetEnv_reply := (\<lambda>v. None)\<rparr>"
            and r = JNI_VERSION_1_2 and ?s1.0 = s1] n run
  have "JNI_OnLoad True (granting_host\<lparr>GetEnv_reply := (\<lambda>v. None)\<rparr>) s1
          = Inr (JNI_VERSION_1_2, s1)"
    and "capability_requests
        (actions_of initial_state
           (bind (JNI_OnLoad True granting_host)
              (\<lambda>_. JNI_OnLoad True (granting_host\<lparr>GetEnv_reply := (\<lambda>v. None)\<rparr>))
              initial_state))
         = [requested_capabilities True (snd (GetCapabilities_reply granting_host))]"
    by blast+
  with first n y run show ?thesis by simp
qed

subsection \<open>C8: which results are asserted\<close>

text \<open>
  C8. The results of the \<^verbatim>\<open>SetEventCallbacks\<close> and \<^verbatim>\<open>SetEventNotificationMode\<close> calls of
  lines 151 and 152 are dropped. On a VM that answers \<^verbatim>\<open>JVMTI_ERROR_INTERNAL\<close> to both,
  \<^verbatim>\<open>Agent_OnLoad\<close> with the options \<open>/home/me/server,5500\<close> makes both calls, reports
  success on standard output and returns 0. The same answer to the \<^verbatim>\<open>SetEventCallbacks\<close>
  call of line 100 fails the assertion of line 101.
\<close>

theorem VMInit_call_results_dropped:
  "map_sum fst fst
     (Agent_OnLoad True vm_init_refusing_host (Some ''/home/me/server,5500'') initial_state)
   = Inr 0
   \<and> filter is_registration (actions_of initial_state
       (Agent_OnLoad True vm_init_refusing_host (Some ''/home/me/server,5500'') initial_state))
     = [Called_SetEventCallbacks agent_callbacks JVMTI_ERROR_NONE,
        Called_SetEventCallbacks (agent_callbacks\<lparr>VMInit := Some vm_init_hook\<rparr>) 113]
   \<and> filter is_mode_call (actions_of initial_state
       (Agent_OnLoad True vm_init_refusing_host (Some ''/home/me/server,5500'') initial_state))
     = four_enables @ [Called_SetEventNotificationMode JVMTI_ENABLE JVMTI_EVENT_VM_INIT 113]
   \<and> last (actions_of initial_state
       (Agent_OnLoad True vm_init_refusing_host (Some ''/home/me/server,5500'') initial_state))
     = Printed stdout ''Profiler Agent: Initialized successfully\<newline>''
   \<and> map_sum fst fst
       (initializeJVMTI True (granting_host\<lparr>SetEventCallbacks_reply := (\<lambda>table. 113)\<rparr>)
          initial_state)
     = Inl Assertion_failed"
proof -
  have ok: "init_ok True vm_init_refusing_host"
    by (simp add: init_ok_def vm_init_refusing_host_def granting_host_def agent_callbacks_def)
  have c: "CHR '','' \<in> set ''/home/me/server,5500''" by simp
  have r: "SetEventCallbacks_reply vm_init_refusing_host
             (agent_callbacks\<lparr>VMInit := Some vm_init_hook\<rparr>) = 113"
    "SetEventNotificationMode_reply vm_init_refusing_host JVMTI_ENABLE JVMTI_EVENT_VM_INIT = 113"
    "AddCapabilities_reply vm_init_refusing_host capas = JVMTI_ERROR_NONE" for capas
    by (simp_all add: vm_init_refusing_host_def granting_host_def agent_callbacks_def)
  have "initializeJVMTI True (granting_host\<lparr>SetEventCallbacks_reply := (\<lambda>table. 113)\<rparr>)
          initial_state
        = Inl (Assertion_failed,
            final_state (initializeJVMTI True
               (granting_host\<lparr>SetEventCallbacks_reply := (\<lambda>table. 113)\<rparr>) initial_state))"
    by (simp add: initializeJVMTI_def prog_defs granting_host_def JVMTI_ERROR_NONE_def)
  then have "map_sum fst fst
       (initializeJVMTI True (granting_host\<lparr>SetEventCallbacks_reply := (\<lambda>table. 113)\<rparr>)
          initial_state)
     = Inl Assertion_failed"
    by (metis fst_conv map_sum.simps(1))
  then show ?thesis
    by (simp add: Agent_OnLoad_armed [OF ok c] actions_of_initialized r init_actions_def
        negotiation_def registration_block_def four_enables_def armed_callbacks_def)
qed

subsection \<open>C6: stores and registrations after the first registration\<close>

lemma initializeJVMTI_extends:
  "\<exists>as. trace (final_state (initializeJVMTI v h s)) = trace s @ as"
proof (cases "GetEnv_reply h (requested_version v)")
  case None
  then show ?thesis by (simp add: initializeJVMTI_def prog_defs)
next
  case (Some env)
  obtain err capas where capas: "GetCapabilities_reply h = (err, capas)"
    by (cases "GetCapabilities_reply h")
  show ?thesis
    using Some capas
    by (simp add: initializeJVMTI_def prog_defs)
qed

lemma initializeJVMTI_frozen:
  "frozen_after_registration (actions_of s (initializeJVMTI v h s))"
proof (cases "GetEnv_reply h (requested_version v)")
  case None
  then show ?thesis by (simp add: initializeJVMTI_def prog_defs actions_of_def)
next
  case (Some env)
  obtain err capas where capas: "GetCapabilities_reply h = (err, capas)"
    by (cases "GetCapabilities_reply h")
  show ?thesis
    using Some capas
    by (simp add: initializeJVMTI_def prog_defs actions_of_def)
qed

lemma actions_of_after_print:
  assumes "trace (final_state r) = trace (log a s) @ as"
  shows "actions_of s r = a # actions_of (log a s) r"
  using assms by (simp add: actions_of_def log_def)

lemma frozen_init_actions:
  "frozen_after_registration (Printed f text # init_actions v h @ map (Printed g) ls)"
  by (simp add: init_actions_def negotiation_def registration_block_def four_enables_def
      Let_def list_all_iff)

lemma Agent_OnLoad_fault_result:
  assumes "\<not> init_ok v h"
  shows "Agent_OnLoad v h options s =
           Inl (projl (initializeJVMTI v h
                  (log (Printed stdout ''Profiler Agent: Initializing...\<newline>'') s)))"
  using initializeJVMTI_fault [OF assms,
      of "log (Printed stdout ''Profiler Agent: Initializing...\<newline>'') s"]
  by (auto simp: Agent_OnLoad_def bind_def fprintf_def isl_def)

lemma JNI_OnLoad_fault_result:
  assumes "jvmti s = None" and "\<not> init_ok v h"
  shows "JNI_OnLoad v h s =
           Inl (projl (initializeJVMTI v h
                  (log (Printed stdout ''Profiler Agent: JNI OnLoad Initializing...\<newline>'') s)))"
  using assms(1) initializeJVMTI_fault [OF assms(2),
      of "log (Printed stdout ''Profiler Agent: JNI OnLoad Initializing...\<newline>'') s"]
  by (auto simp: JNI_OnLoad_def bind_def fprintf_def isl_def)

lemma frozen_after_faulting_init:
  assumes "\<not> init_ok v h"
  shows "frozen_after_registration
           (actions_of s (Inl (projl (initializeJVMTI v h (log (Printed f text) s))) :: 'a result))"
proof -
  let ?s = "log (Printed f text) s"
  let ?r = "initializeJVMTI v h ?s"
  from initializeJVMTI_fault [OF assms, of ?s] obtain e where e: "?r = Inl e"
    by (auto simp: isl_def)
  obtain fl st where est: "e = (fl, st)" by (cases e)
  let ?r' = "Inl (projl ?r) :: 'a result"
  have fs: "final_state ?r' = final_state ?r" and acts: "actions_of ?s ?r' = actions_of ?s ?r"
    by (simp_all add: e est actions_of_def)
  from initializeJVMTI_extends [of v h ?s] obtain as where
    "trace (final_state ?r') = trace ?s @ as" unfolding fs by blast
  then have "actions_of s ?r' = Printed f text # actions_of ?s ?r'"
    by (rule actions_of_after_print)
  with initializeJVMTI_frozen [of ?s v h] acts show ?thesis by simp
qed

lemma JNI_OnLoad_frozen: "frozen_after_registration (actions_of s (JNI_OnLoad v h s))"
proof (cases "jvmti s")
  case (Some env)
  then show ?thesis by (simp add: JNI_OnLoad_skip actions_of_def)
next
  case None
  show ?thesis
  proof (cases "init_ok v h")
    case True
    have "frozen_after_registration
            (Printed stdout ''Profiler Agent: JNI OnLoad Initializing...\<newline>'' # init_actions v h
             @ map (Printed stdout) [''Profiler Agent: JNI OnLoad Initialized successfully\<newline>''])"
      by (rule frozen_init_actions)
    then show ?thesis
      by (simp add: JNI_OnLoad_first [OF None True] actions_of_initialized)
  next
    case False
    show ?thesis
      unfolding JNI_OnLoad_fault_result [OF None False]
      using False by (rule frozen_after_faulting_init)
  qed
qed

lemma Agent_OnLoad_frozen:
  assumes "\<And>opts. options = Some opts \<Longrightarrow> CHR '','' \<notin> set opts"
  shows "frozen_after_registration (actions_of s (Agent_OnLoad v h options s))"
proof (cases "init_ok v h")
  case False
  show ?thesis
    unfolding Agent_OnLoad_fault_result [OF False]
    using False by (rule frozen_after_faulting_init)
next
  case True
  show ?thesis
  proof (cases "options = None \<or> options = Some []")
    case calib: True
    have "frozen_after_registration
            (Printed stdout ''Profiler Agent: Initializing...\<newline>'' # init_actions v h
             @ map (Printed stdout)
                [case options of None \<Rightarrow> ''Profiler Agent: No options\<newline>''
                 | Some opts \<Rightarrow> ''Profiler Agent: Options: >'' @ opts @ ''<\<newline>'',
                 ''Profiler Agent: Initialized successfully\<newline>''])"
      by (rule frozen_init_actions)
    then show ?thesis
      by (simp add: Agent_OnLoad_calibration [OF True calib] actions_of_initialized)
  next
    case False
    then obtain opts where o: "options = Some opts" and ne: "opts \<noteq> []"
      by (cases options) auto
    from assms o have nc: "CHR '','' \<notin> set opts" by simp
    have "frozen_after_registration
            (Printed stdout ''Profiler Agent: Initializing...\<newline>'' # init_actions v h
             @ (Printed stdout (''Profiler Agent: Options: >'' @ opts @ ''<\<newline>'')
                # map (Printed stderr) usage_message))"
      by (simp add: init_actions_def negotiation_def registration_block_def four_enables_def
          Let_def list_all_iff)
    then show ?thesis
      by (simp add: o Agent_OnLoad_usage [OF True ne nc] actions_of_initialized)
  qed
qed

lemma exec_call_returns:
  assumes "exec_call v c s0 = Inr (r, s)"
  shows "jvmti s \<noteq> None
         \<and> (\<exists>as. trace s = trace s0 @ as
                \<and> filter is_table_action as = call_table_actions (jvmti s0 \<noteq> None) c)"
proof (cases c)
  case (JNI_OnLoad_call h)
  show ?thesis
  proof (cases "jvmti s0")
    case (Some env)
    with assms JNI_OnLoad_call JNI_OnLoad_skip [of s0 v h] have "s = s0" by simp
    with Some JNI_OnLoad_call show ?thesis by simp
  next
    case None
    have ok: "init_ok v h"
      using JNI_OnLoad_fault [OF None, of v h] assms JNI_OnLoad_call by auto
    from JNI_OnLoad_first [OF None ok] assms JNI_OnLoad_call
    have s: "s = initialized v h
        (trace s0 @ Printed stdout ''Profiler Agent: JNI OnLoad Initializing...\<newline>''
         # init_actions v h
         @ [Printed stdout ''Profiler Agent: JNI OnLoad Initialized successfully\<newline>''])"
      by simp
    have "jvmti s \<noteq> None"
      using ok by (simp add: s initialized_def init_ok_def)
    moreover have "trace s = trace s0
        @ (Printed stdout ''Profiler Agent: JNI OnLoad Initializing...\<newline>''
           # init_actions v h
           @ [Printed stdout ''Profiler Agent: JNI OnLoad Initialized successfully\<newline>''])"
      by (simp add: s initialized_def)
    moreover have "filter is_table_action
        (Printed stdout ''Profiler Agent: JNI OnLoad Initializing...\<newline>''
           # init_actions v h
           @ [Printed stdout ''Profiler Agent: JNI OnLoad Initialized successfully\<newline>''])
        = call_table_actions (jvmti s0 \<noteq> None) c"
      by (simp add: table_actions_init None JNI_OnLoad_call)
    ultimately show ?thesis by blast
  qed
next
  case (Agent_OnLoad_call h options)
  have ok: "init_ok v h"
    using Agent_OnLoad_fault [of v h options s0] assms Agent_OnLoad_call by auto
  consider (calibration) "options = None \<or> options = Some []"
    | (usage) opts where "options = Some opts" "opts \<noteq> []" "CHR '','' \<notin> set opts"
    | (armed) opts where "options = Some opts" "CHR '','' \<in> set opts"
    by (cases options) auto
  then show ?thesis
  proof cases
    case calibration
    let ?as = "Printed stdout ''Profiler Agent: Initializing...\<newline>'' # init_actions v h
         @ [Printed stdout
              (case options of None \<Rightarrow> ''Profiler Agent: No options\<newline>''
               | Some opts \<Rightarrow> ''Profiler Agent: Options: >'' @ opts @ ''<\<newline>''),
            Printed stdout ''Profiler Agent: Initialized successfully\<newline>'']"
    from Agent_OnLoad_calibration [OF ok calibration, of s0] assms Agent_OnLoad_call
    have s: "s = initialized v h (trace s0 @ ?as)" by simp
    have "jvmti s \<noteq> None"
      using ok by (simp add: s initialized_def init_ok_def)
    moreover have "trace s = trace s0 @ ?as"
      by (simp add: s initialized_def)
    moreover have "filter is_table_action ?as = call_table_actions (jvmti s0 \<noteq> None) c"
      using calibration by (auto simp: table_actions_init Agent_OnLoad_call)
    ultimately show ?thesis by blast
  next
    case usage
    let ?as = "Printed stdout ''Profiler Agent: Initializing...\<newline>'' # init_actions v h
         @ Printed stdout (''Profiler Agent: Options: >'' @ opts @ ''<\<newline>'')
         # map (Printed stderr) usage_message"
    from Agent_OnLoad_usage [OF ok usage(2,3), of s0] assms Agent_OnLoad_call usage(1)
    have s: "s = initialized v h (trace s0 @ ?as)" by simp
    have "jvmti s \<noteq> None"
      using ok by (simp add: s initialized_def init_ok_def)
    moreover have "trace s = trace s0 @ ?as"
      by (simp add: s initialized_def)
    moreover have "filter is_table_action ?as = call_table_actions (jvmti s0 \<noteq> None) c"
      using usage by (simp add: table_actions_init filter_map_Printed Agent_OnLoad_call)
    ultimately show ?thesis by blast
  next
    case armed
    let ?as = "Printed stdout ''Profiler Agent: Initializing...\<newline>'' # init_actions v h
         @ [Printed stdout (''Profiler Agent: Options: >'' @ opts @ ''<\<newline>''),
            Called_parse_options_and_extract_params opts,
            Wrote_callbacks armed_callbacks,
            Called_SetEventCallbacks armed_callbacks (SetEventCallbacks_reply h armed_callbacks),
            Called_SetEventNotificationMode JVMTI_ENABLE JVMTI_EVENT_VM_INIT
              (SetEventNotificationMode_reply h JVMTI_ENABLE JVMTI_EVENT_VM_INIT),
            Printed stdout ''Profiler Agent: Initialized successfully\<newline>'']"
    from Agent_OnLoad_armed [OF ok armed(2), of s0] assms Agent_OnLoad_call armed(1)
    have s: "s = (initialized v h (trace s0 @ ?as))\<lparr>jvmti_callbacks_static := armed_callbacks\<rparr>"
      by simp
    have "jvmti s \<noteq> None"
      using ok by (simp add: s initialized_def init_ok_def)
    moreover have "trace s = trace s0 @ ?as"
      by (simp add: s initialized_def)
    moreover have "filter is_table_action ?as = call_table_actions (jvmti s0 \<noteq> None) c"
      using armed by (simp add: table_actions_init armed_callbacks_def Agent_OnLoad_call)
    ultimately show ?thesis by blast
  qed
qed

lemma run_calls_table_actions:
  "run_calls v cs s0 = Inr ((), s) \<Longrightarrow>
   filter is_table_action (trace s)
     = filter is_table_action (trace s0) @ process_table_actions (jvmti s0 \<noteq> None) cs
   \<and> (cs \<noteq> [] \<longrightarrow> jvmti s \<noteq> None)
   \<and> (cs = [] \<longrightarrow> s = s0)"
proof (induction cs arbitrary: s0)
  case Nil
  then show ?case by simp
next
  case (Cons c cs)
  from Cons.prems obtain r s1 where call: "exec_call v c s0 = Inr (r, s1)"
    and rest: "run_calls v cs s1 = Inr ((), s)"
    by (cases "exec_call v c s0") auto
  from exec_call_returns [OF call] obtain as where j: "jvmti s1 \<noteq> None"
    and tr: "trace s1 = trace s0 @ as"
    and ta: "filter is_table_action as = call_table_actions (jvmti s0 \<noteq> None) c"
    by blast
  from Cons.IH [OF rest] have
    t: "filter is_table_action (trace s)
          = filter is_table_action (trace s1) @ process_table_actions (jvmti s1 \<noteq> None) cs"
    and n: "cs \<noteq> [] \<longrightarrow> jvmti s \<noteq> None" and e: "cs = [] \<longrightarrow> s = s1"
    by simp_all
  have "jvmti s \<noteq> None" using n e j by (cases cs) auto
  with t tr ta j show ?case by simp
qed

lemma run_JNI_OnLoad_calls_skip:
  "jvmti s \<noteq> None \<Longrightarrow> list_all is_JNI_OnLoad_call cs \<Longrightarrow> run_calls v cs s = Inr ((), s)"
proof (induction cs)
  case Nil
  then show ?case by simp
next
  case (Cons c cs)
  from Cons.prems(2) obtain h where c: "c = JNI_OnLoad_call h" by (cases c) auto
  with Cons show ?case by (simp add: JNI_OnLoad_skip)
qed

lemma first_call_frozen:
  assumes "\<not> well_formed_attach c"
  shows "frozen_after_registration (trace (final_state (exec_call v c initial_state)))"
proof -
  have a: "trace (final_state r) = actions_of initial_state r" for r :: "jint result"
    by (simp add: actions_of_def initial_state_def)
  show ?thesis
  proof (cases c)
    case (JNI_OnLoad_call h)
    then show ?thesis by (simp add: a JNI_OnLoad_frozen)
  next
    case (Agent_OnLoad_call h options)
    with assms have "\<And>opts. options = Some opts \<Longrightarrow> CHR '','' \<notin> set opts" by auto
    then have "frozen_after_registration (actions_of initial_state
        (Agent_OnLoad v h options initial_state))"
      by (rule Agent_OnLoad_frozen)
    with Agent_OnLoad_call show ?thesis by (simp add: a)
  qed
qed

lemma first_call_then_JNI_OnLoad_frozen:
  assumes "list_all is_JNI_OnLoad_call rest" and "\<not> well_formed_attach c"
  shows "frozen_after_registration
           (trace (final_state (run_calls v (c # rest) initial_state)))"
proof (cases "exec_call v c initial_state")
  case (Inl e)
  then have "final_state (run_calls v (c # rest) initial_state)
             = final_state (exec_call v c initial_state)"
    by (cases e) simp
  with first_call_frozen [OF assms(2), of v] show ?thesis by simp
next
  case (Inr rs)
  obtain r s1 where rs: "rs = (r, s1)" by (cases rs)
  with Inr have call: "exec_call v c initial_state = Inr (r, s1)" by simp
  from exec_call_returns [OF call] have "jvmti s1 \<noteq> None" by blast
  from run_JNI_OnLoad_calls_skip [OF this assms(1), of v] call
  have "final_state (run_calls v (c # rest) initial_state)
        = final_state (exec_call v c initial_state)"
    by simp
  with first_call_frozen [OF assms(2), of v] show ?thesis by simp
qed

lemma registrations_among_table_actions:
  "filter is_registration (filter is_table_action as) = filter is_registration as"
proof (induction as)
  case Nil
  then show ?case by simp
next
  case (Cons a as)
  then show ?case by (cases a) simp_all
qed

text \<open>
  C6 as stated fails, in two ways. On the well-formed-options path \<^verbatim>\<open>Agent_OnLoad\<close>
  stores into the table and registers it again after the registration of line 100. And
  \<^verbatim>\<open>Agent_OnLoad\<close> has no guard: called after \<^verbatim>\<open>JNI_OnLoad\<close> has registered the table, it
  zeroes, fills and registers the table again.
\<close>

theorem registration_not_final_counterexample:
  "\<not> frozen_after_registration
       (actions_of initial_state
          (Agent_OnLoad True granting_host (Some ''/home/me/server,5500'') initial_state))
   \<and> \<not> frozen_after_registration
         (trace (final_state
            (run_calls True
               [JNI_OnLoad_call granting_host, Agent_OnLoad_call granting_host None]
               initial_state)))"
proof -
  have c: "CHR '','' \<in> set ''/home/me/server,5500''" by simp
  have n: "jvmti initial_state = None" by (simp add: initial_state_def)
  have o: "(None :: string option) = None \<or> (None :: string option) = Some []" by simp
  have g: "AddCapabilities_reply granting_host capas = JVMTI_ERROR_NONE" for capas
    by (simp add: granting_host_def)
  have "\<not> frozen_after_registration
       (actions_of initial_state
          (Agent_OnLoad True granting_host (Some ''/home/me/server,5500'') initial_state))"
    by (simp add: Agent_OnLoad_armed [OF granting_host_ok c] actions_of_initialized
        init_actions_def negotiation_def registration_block_def four_enables_def Let_def)
  moreover have "\<not> frozen_after_registration
         (trace (final_state
            (run_calls True
               [JNI_OnLoad_call granting_host, Agent_OnLoad_call granting_host None]
               initial_state)))"
  proof -
    have t: "trace initial_state = []" by (simp add: initial_state_def)
    have "trace (final_state
            (run_calls True
               [JNI_OnLoad_call granting_host, Agent_OnLoad_call granting_host None]
               initial_state))
          = Printed stdout ''Profiler Agent: JNI OnLoad Initializing...\<newline>''
            # init_actions True granting_host
            @ Printed stdout ''Profiler Agent: JNI OnLoad Initialized successfully\<newline>''
            # Printed stdout ''Profiler Agent: Initializing...\<newline>''
            # init_actions True granting_host
            @ [Printed stdout ''Profiler Agent: No options\<newline>'',
               Printed stdout ''Profiler Agent: Initialized successfully\<newline>'']"
      by (simp add: JNI_OnLoad_first [OF n granting_host_ok]
          Agent_OnLoad_calibration [OF granting_host_ok o] initialized_def t)
    then show ?thesis
      by (simp add: init_actions_def negotiation_def registration_block_def four_enables_def g)
  qed
  ultimately show ?thesis by (rule conjI)
qed

text \<open>
  C6, amended. Take a process: any list of calls of the two entry points, made from the
  initial state. When every call returns, the stores into the callback table and the
  registrations of the whole process are those of \<open>process_table_actions\<close>: the
  registration block in the first call, nothing in a later \<^verbatim>\<open>JNI_OnLoad\<close> call, the whole
  registration block again in every later \<^verbatim>\<open>Agent_OnLoad\<close> call (the entry has no guard),
  and for every \<^verbatim>\<open>Agent_OnLoad\<close> call whose option string has a comma one store that sets
  the \<open>VMInit\<close> slot to \<^verbatim>\<open>vm_init_hook\<close>, the five other slots as they are, and one
  registration of that table. Once the table has been registered, a call of \<^verbatim>\<open>JNI_OnLoad\<close>
  changes nothing, whatever the VM would answer. So in a process whose calls after the
  first are all \<^verbatim>\<open>JNI_OnLoad\<close> calls, and whose first call is not an \<^verbatim>\<open>Agent_OnLoad\<close> with
  a comma in its options, the table is neither stored into nor registered again after
  its registration, however the process ends.
\<close>

theorem table_actions_over_process_lifetime:
  "(run_calls v cs initial_state = Inr ((), s) \<longrightarrow>
      filter is_table_action (trace s) = process_table_actions False cs
      \<and> (filter is_registration (trace s) \<noteq> [] \<longrightarrow>
           JNI_OnLoad v h s = Inr (JNI_VERSION_1_2, s)))
   \<and> (list_all is_JNI_OnLoad_call rest \<longrightarrow> \<not> well_formed_attach c \<longrightarrow>
        frozen_after_registration
          (trace (final_state (run_calls v (c # rest) initial_state))))"
proof -
  have "filter is_table_action (trace s) = process_table_actions False cs
        \<and> (filter is_registration (trace s) \<noteq> [] \<longrightarrow>
             JNI_OnLoad v h s = Inr (JNI_VERSION_1_2, s))"
    if run: "run_calls v cs initial_state = Inr ((), s)"
  proof -
    note t = run_calls_table_actions [OF run]
    have i: "jvmti initial_state = None" "trace initial_state = []"
      by (simp_all add: initial_state_def)
    from t i have ta: "filter is_table_action (trace s) = process_table_actions False cs"
      by simp
    have "JNI_OnLoad v h s = Inr (JNI_VERSION_1_2, s)"
      if reg: "filter is_registration (trace s) \<noteq> []"
    proof -
      have "cs \<noteq> []"
      proof
        assume "cs = []"
        with t have "s = initial_state" by simp
        with reg i show False by simp
      qed
      with t have "jvmti s \<noteq> None" by simp
      then show ?thesis by (rule JNI_OnLoad_skip)
    qed
    with ta show ?thesis by blast
  qed
  with first_call_then_JNI_OnLoad_frozen [of rest c v] show ?thesis by blast
qed

text \<open>
  Two processes on the granting host. In the first, \<^verbatim>\<open>Agent_OnLoad\<close> without options
  follows \<^verbatim>\<open>JNI_OnLoad\<close> and builds and registers the table a second time; a \<^verbatim>\<open>JNI_OnLoad\<close>
  call after it does nothing. In the second, two \<^verbatim>\<open>JNI_OnLoad\<close> calls follow an
  \<^verbatim>\<open>Agent_OnLoad\<close> with the options \<open>5500\<close>.
\<close>

theorem table_actions_over_process_lifetime_witness:
  "(\<exists>s. run_calls True
           [JNI_OnLoad_call granting_host, Agent_OnLoad_call granting_host None] initial_state
         = Inr ((), s)
       \<and> filter is_table_action (trace s) = registration_block @ registration_block
       \<and> filter is_registration (trace s) \<noteq> []
       \<and> JNI_OnLoad True (granting_host\<lparr>GetEnv_reply := (\<lambda>v. None)\<rparr>) s
           = Inr (JNI_VERSION_1_2, s))
   \<and> list_all is_JNI_OnLoad_call [JNI_OnLoad_call granting_host, JNI_OnLoad_call granting_host]
   \<and> \<not> well_formed_attach (Agent_OnLoad_call granting_host (Some ''5500''))
   \<and> frozen_after_registration
       (trace (final_state
          (run_calls True
             [Agent_OnLoad_call granting_host (Some ''5500''),
              JNI_OnLoad_call granting_host, JNI_OnLoad_call granting_host]
             initial_state)))"
proof -
  let ?cs = "[JNI_OnLoad_call granting_host, Agent_OnLoad_call granting_host None]"
  let ?rest = "[JNI_OnLoad_call granting_host, JNI_OnLoad_call granting_host]"
  let ?c = "Agent_OnLoad_call granting_host (Some ''5500'')"
  let ?h = "granting_host\<lparr>GetEnv_reply := (\<lambda>v. None)\<rparr>"
  have n: "jvmti initial_state = None" by (simp add: initial_state_def)
  have o: "(None :: string option) = None \<or> (None :: string option) = Some []" by simp
  obtain s where run: "run_calls True ?cs initial_state = Inr ((), s)"
    by (simp add: JNI_OnLoad_first [OF n granting_host_ok]
        Agent_OnLoad_calibration [OF granting_host_ok o])
  note t = table_actions_over_process_lifetime
    [where v = True and cs = ?cs and s = s and h = ?h and rest = ?rest and c = ?c]
  note t1 = t [THEN conjunct1, THEN mp, OF run]
  have ta: "filter is_table_action (trace s) = registration_block @ registration_block"
    using t1 [THEN conjunct1] by simp
  have reg: "filter is_registration (trace s) \<noteq> []"
  proof -
    have "filter is_registration (trace s)
          = filter is_registration (filter is_table_action (trace s))"
      by (rule registrations_among_table_actions [symmetric])
    also have "\<dots> = filter is_registration (registration_block @ registration_block)"
      by (simp only: ta)
    finally show ?thesis by (simp add: registration_block_def)
  qed
  note skip = t1 [THEN conjunct2, THEN mp, OF reg]
  have l: "list_all is_JNI_OnLoad_call ?rest" and w: "\<not> well_formed_attach ?c"
    by simp_all
  note fr = t [THEN conjunct2, THEN mp, OF l, THEN mp, OF w]
  show ?thesis
  proof (intro conjI)
    show "\<exists>s. run_calls True ?cs initial_state = Inr ((), s)
            \<and> filter is_table_action (trace s) = registration_block @ registration_block
            \<and> filter is_registration (trace s) \<noteq> []
            \<and> JNI_OnLoad True ?h s = Inr (JNI_VERSION_1_2, s)"
      by (intro exI [of _ s] conjI) (rule run ta reg skip)+
    show "list_all is_JNI_OnLoad_call ?rest" by (rule l)
    show "\<not> well_formed_attach ?c" by (rule w)
    show "frozen_after_registration
            (trace (final_state (run_calls True (?c # ?rest) initial_state)))"
      by (rule fr)
  qed
qed

end
